theory Spec2Isabelle
  imports Main "HOL-Library.AList"
begin

section \<open>Python values\<close>

text \<open>
  The client handles values decoded from JSON: settings documents, the keystore, and the
  bodies of backend responses. A decoded value is \<open>None\<close>, a bool, a number, a string, a
  list or a dict. A dict is an association list in insertion order (the order Python keeps);
  its keys are distinct in every real dict, which \<open>wf_json\<close> states. \<open>JNull\<close> is Python's
  \<open>None\<close>. Numbers are integers: JSON numbers with a fraction are not modelled.
  Strings are lists of characters; case mapping and \<open>repr\<close> are modelled for ASCII.
\<close>

datatype json =
    JNull
  | JBool bool
  | JNum int
  | JStr string
  | JList "json list"
  | JDict "(string \<times> json) list"

text \<open>The exceptions that can leave a function of the client.\<close>

datatype py_error = TypeError | AttributeError | RuntimeError string

fun wf_json :: "json \<Rightarrow> bool" where
  "wf_json (JList xs) = list_all wf_json xs"
| "wf_json (JDict kvs) = (distinct (map fst kvs) \<and> list_all (\<lambda>kv. wf_json (snd kv)) kvs)"
| "wf_json _ = True"

text \<open>Truth value testing, as \<open>if x:\<close> and \<open>not x\<close> do it.\<close>

fun truthy :: "json \<Rightarrow> bool" where
  "truthy JNull = False"
| "truthy (JBool b) = b"
| "truthy (JNum n) = (n \<noteq> 0)"
| "truthy (JStr s) = (s \<noteq> [])"
| "truthy (JList xs) = (xs \<noteq> [])"
| "truthy (JDict kvs) = (kvs \<noteq> [])"

text \<open>An argument declared \<open>Optional[str]\<close>, read as the value it is in Python.\<close>

fun of_opt :: "string option \<Rightarrow> json" where
  "of_opt None = JNull"
| "of_opt (Some s) = JStr s"

text \<open>\<open>d.get(k, default)\<close> on a dict.\<close>

definition dict_get :: "('k \<times> 'v) list \<Rightarrow> 'k \<Rightarrow> 'v \<Rightarrow> 'v" where
  "dict_get d k dflt = (case map_of d k of None \<Rightarrow> dflt | Some v \<Rightarrow> v)"

text \<open>\<open>d1.update(d2)\<close>: every item of \<open>d2\<close> is stored into \<open>d1\<close>, in order.\<close>

definition dict_update :: "('k \<times> 'v) list \<Rightarrow> ('k \<times> 'v) list \<Rightarrow> ('k \<times> 'v) list" where
  "dict_update d1 d2 = fold (\<lambda>kv d. AList.update (fst kv) (snd kv) d) d2 d1"

text \<open>\<open>str.upper()\<close> on ASCII letters; every other character is kept.\<close>

definition upper_char :: "char \<Rightarrow> char" where
  "upper_char c =
     (case map_of (zip ''abcdefghijklmnopqrstuvwxyz'' ''ABCDEFGHIJKLMNOPQRSTUVWXYZ'') c of
        None \<Rightarrow> c
      | Some u \<Rightarrow> u)"

definition upper :: "string \<Rightarrow> string" where
  "upper s = map upper_char s"

text \<open>\<open>sub in s\<close> on strings: \<open>sub\<close> occurs in \<open>s\<close> as a contiguous run.\<close>

fun starts_with :: "string \<Rightarrow> string \<Rightarrow> bool" where
  "starts_with [] s = True"
| "starts_with (c # cs) [] = False"
| "starts_with (c # cs) (d # ds) = (c = d \<and> starts_with cs ds)"

fun substring :: "string \<Rightarrow> string \<Rightarrow> bool" where
  "substring sub [] = (sub = [])"
| "substring sub (c # cs) = (starts_with sub (c # cs) \<or> substring sub cs)"

text \<open>
  \<open>x in container\<close> for a string \<open>x\<close>: substring of a string, element of a list, key of a
  dict; \<open>None\<close>, bools and numbers are not iterable.
\<close>

fun py_in :: "string \<Rightarrow> json \<Rightarrow> py_error + bool" where
  "py_in x (JStr s) = Inr (substring x s)"
| "py_in x (JList xs) = Inr (JStr x \<in> set xs)"
| "py_in x (JDict kvs) = Inr (x \<in> set (map fst kvs))"
| "py_in x _ = Inl TypeError"

text \<open>\<open>data[0]\<close> inside a \<open>try\<close> whose handler yields \<open>None\<close>: the first item of a list
  or string; a dict has no key \<open>0\<close>, the other values are not subscriptable.\<close>

fun first_item :: "json \<Rightarrow> json" where
  "first_item (JList (x # xs)) = x"
| "first_item (JStr (c # cs)) = JStr [c]"
| "first_item _ = JNull"

text \<open>\<open>list(reversed(x))\<close>: a list, the characters of a string, the keys of a dict
  (Python 3.8 and later); \<open>None\<close> where \<open>reversed\<close> raises.\<close>

fun py_reversed :: "json \<Rightarrow> json list option" where
  "py_reversed (JList xs) = Some (rev xs)"
| "py_reversed (JStr s) = Some (rev (map (\<lambda>c. JStr [c]) s))"
| "py_reversed (JDict kvs) = Some (rev (map (\<lambda>kv. JStr (fst kv)) kvs))"
| "py_reversed _ = None"

subsection \<open>Rendering: \<open>str\<close> and \<open>repr\<close>\<close>

fun show_nat :: "nat \<Rightarrow> string" where
  "show_nat n =
     (if n < 10 then [''0123456789'' ! n]
      else show_nat (n div 10) @ [''0123456789'' ! (n mod 10)])"

declare show_nat.simps [simp del]

definition show_int :: "int \<Rightarrow> string" where
  "show_int i = (if i < 0 then CHR ''-'' # show_nat (nat (- i)) else show_nat (nat i))"

definition hex_digit :: "nat \<Rightarrow> char" where
  "hex_digit n = ''0123456789abcdef'' ! (n mod 16)"

text \<open>One character inside \<open>repr\<close> of a string quoted with \<open>q\<close>. Characters above DEL are
  copied (Python escapes the unprintable ones among them).\<close>

definition escape_char :: "char \<Rightarrow> char \<Rightarrow> string" where
  "escape_char q c =
     (if c = q \<or> c = CHR 0x5C then [CHR 0x5C, c]
      else if c = CHR 0x09 then [CHR 0x5C, CHR ''t'']
      else if c = CHR 0x0A then [CHR 0x5C, CHR ''n'']
      else if c = CHR 0x0D then [CHR 0x5C, CHR ''r'']
      else if (of_char c :: nat) < 32 \<or> c = CHR 0x7F
        then [CHR 0x5C, CHR ''x'', hex_digit (of_char c div 16), hex_digit (of_char c)]
      else [c])"

definition py_repr_str :: "string \<Rightarrow> string" where
  "py_repr_str s =
     (let q = (if CHR 0x27 \<in> set s \<and> CHR 0x22 \<notin> set s then CHR 0x22 else CHR 0x27)
      in q # concat (map (escape_char q) s) @ [q])"

fun join :: "string \<Rightarrow> string list \<Rightarrow> string" where
  "join sep [] = []"
| "join sep [x] = x"
| "join sep (x # y # ys) = x @ sep @ join sep (y # ys)"

fun py_repr :: "json \<Rightarrow> string" where
  "py_repr JNull = ''None''"
| "py_repr (JBool b) = (if b then ''True'' else ''False'')"
| "py_repr (JNum i) = show_int i"
| "py_repr (JStr s) = py_repr_str s"
| "py_repr (JList xs) = ''['' @ join '', '' (map py_repr xs) @ '']''"
| "py_repr (JDict kvs) =
     ''{'' @ join '', '' (map (\<lambda>kv. py_repr_str (fst kv) @ '': '' @ py_repr (snd kv)) kvs) @ ''}''"

text \<open>\<open>f"{x}"\<close>: a string is inserted as it is, any other value as its \<open>repr\<close>.\<close>

definition py_str :: "json \<Rightarrow> string" where
  "py_str v = (case v of JStr s \<Rightarrow> s | _ \<Rightarrow> py_repr v)"


section \<open>Role hierarchy\<close>

text \<open>The two module-level tables, as the dicts they are.\<close>

definition ROLE_HIERARCHY :: "(string \<times> int) list" where
  "ROLE_HIERARCHY =
     [(''supervisor'', 4), (''manager'', 3), (''worker'', 2), (''grunt'', 1), (''bot'', 0)]"

definition BOT_ROLES :: "(string \<times> string) list" where
  "BOT_ROLES =
     [(''BLACK'', ''supervisor''), (''INTOLERANT'', ''worker''),
      (''OLLAMA'', ''grunt''), (''TKINTER'', ''bot'')]"

definition can_manage_bot :: "string \<Rightarrow> string \<Rightarrow> bool" where
  "can_manage_bot manager_name target_name =
     (let manager_role = dict_get BOT_ROLES (upper manager_name) ''bot'';
          target_role = dict_get BOT_ROLES (upper target_name) ''bot''
      in dict_get ROLE_HIERARCHY manager_role 0 > dict_get ROLE_HIERARCHY target_role 0)"

text \<open>
  The specification's reading of the same tables: an enumeration of roles in the fixed
  order supervisor > manager > worker > grunt > bot, a rank for each, and the role of a
  name, where a name outside the table is a bot.
\<close>

datatype role = Supervisor | Manager | Worker | Grunt | Bot

fun rank :: "role \<Rightarrow> int" where
  "rank Supervisor = 4"
| "rank Manager = 3"
| "rank Worker = 2"
| "rank Grunt = 1"
| "rank Bot = 0"

definition role_of :: "string \<Rightarrow> role" where
  "role_of name =
     (let n = upper name in
      if n = ''BLACK'' then Supervisor
      else if n = ''INTOLERANT'' then Worker
      else if n = ''OLLAMA'' then Grunt
      else Bot)"


section \<open>Settings store\<close>

text \<open>
  The disk below the bot base path: each existing folder, by name, with the state of the
  \<open>settings.json\<close> in it. \<open>Corrupt\<close> is a file that \<open>json.loads\<close> rejects. A write to a
  file in an existing folder succeeds. The messages printed on the way are left out.
\<close>

datatype file_state = Missing | Corrupt | Doc json

type_synonym disk = "string \<rightharpoonup> file_state"

definition get_bot_folder :: "disk \<Rightarrow> string \<Rightarrow> string option" where
  "get_bot_folder d bot_name =
     (let folder = upper bot_name in if d folder \<noteq> None then Some folder else None)"

definition settings_file :: "disk \<Rightarrow> string \<Rightarrow> file_state" where
  "settings_file d folder = (case d folder of None \<Rightarrow> Missing | Some f \<Rightarrow> f)"

definition get_bot_settings :: "disk \<Rightarrow> string \<Rightarrow> json" where
  "get_bot_settings d bot_name =
     (case get_bot_folder d bot_name of
        None \<Rightarrow> JNull
      | Some folder \<Rightarrow>
          (case settings_file d folder of
             Missing \<Rightarrow> JNull
           | Corrupt \<Rightarrow> JNull
           | Doc v \<Rightarrow> v))"

text \<open>One round of the merge loop on a dict \<open>existing\<close>.\<close>

definition merge_key :: "string \<times> json \<Rightarrow> (string \<times> json) list \<Rightarrow> (string \<times> json) list" where
  "merge_key kv existing =
     (case (snd kv, map_of existing (fst kv)) of
        (JDict v, Some (JDict e)) \<Rightarrow> AList.update (fst kv) (JDict (dict_update e v)) existing
      | _ \<Rightarrow> AList.update (fst kv) (snd kv) existing)"

text \<open>
  The merge loop as a whole. With no item to merge the loaded value is kept, whatever it
  is. Otherwise a value that is not a dict makes the first round raise \<open>TypeError\<close>
  (at \<open>key in existing\<close>, \<open>existing[key]\<close> or the item assignment), which is
  \<open>None\<close> here.
\<close>

definition deep_merge :: "json \<Rightarrow> (string \<times> json) list \<Rightarrow> json option" where
  "deep_merge existing settings =
     (if settings = [] then Some existing
      else case existing of
             JDict e \<Rightarrow> Some (JDict (fold merge_key settings e))
           | _ \<Rightarrow> None)"

definition set_bot_settings ::
  "disk \<Rightarrow> string \<Rightarrow> (string \<times> json) list \<Rightarrow> string option \<Rightarrow> bool \<times> disk" where
  "set_bot_settings d bot_name settings manager_name =
     (if truthy (of_opt manager_name) \<and>
         \<not> can_manage_bot (case manager_name of Some m \<Rightarrow> m | None \<Rightarrow> []) bot_name
      then (False, d)
      else case get_bot_folder d bot_name of
             None \<Rightarrow> (False, d)
           | Some folder \<Rightarrow>
               (case settings_file d folder of
                  Corrupt \<Rightarrow> (False, d)
                | Missing \<Rightarrow>
                    (case deep_merge (JDict []) settings of
                       None \<Rightarrow> (False, d)
                     | Some merged \<Rightarrow> (True, d(folder \<mapsto> Doc merged)))
                | Doc existing \<Rightarrow>
                    (case deep_merge existing settings of
                       None \<Rightarrow> (False, d)
                     | Some merged \<Rightarrow> (True, d(folder \<mapsto> Doc merged)))))"

text \<open>
  \<open>add_bot_rule\<close> has no handler of its own: \<open>settings.get\<close> on a document that is not a
  dict, \<open>rule not in rules\<close> on a value that is not iterable and \<open>rules.append\<close> on a
  string or dict leave it as exceptions, before anything is written.
\<close>

definition add_bot_rule ::
  "disk \<Rightarrow> string \<Rightarrow> string \<Rightarrow> string option \<Rightarrow> (py_error + bool) \<times> disk" where
  "add_bot_rule d bot_name rule manager_name =
     (let loaded = get_bot_settings d bot_name;
          settings = (if truthy loaded then loaded else JDict [])
      in case settings of
           JDict kvs \<Rightarrow>
             (let rules = dict_get kvs ''rules'' (JList []) in
              case py_in rule rules of
                Inl e \<Rightarrow> (Inl e, d)
              | Inr True \<Rightarrow>
                  (case set_bot_settings d bot_name [(''rules'', rules)] manager_name of
                     (r, d') \<Rightarrow> (Inr r, d'))
              | Inr False \<Rightarrow>
                  (case rules of
                     JList xs \<Rightarrow>
                       (case set_bot_settings d bot_name
                               [(''rules'', JList (xs @ [JStr rule]))] manager_name of
                          (r, d') \<Rightarrow> (Inr r, d'))
                   | _ \<Rightarrow> (Inl AttributeError, d)))
         | _ \<Rightarrow> (Inl AttributeError, d))"


section \<open>Session\<close>

text \<open>
  What lies outside the process: the environment variables, the keystore file and the
  backend. A request either fails in transport (\<open>requests\<close> raises) or comes back with a
  status code and a body, which parses as JSON or does not. Each endpoint is a function
  of what the request carries.
\<close>

datatype body = BadJson | Json json

datatype response = TransportError | Http nat body

record world =
  environ :: "string \<rightharpoonup> string"
  keystore :: file_state
  rpc_validate_api_key :: "json \<Rightarrow> response"
  rpc_get_chat :: "json \<Rightarrow> string \<Rightarrow> int \<Rightarrow> response"
  rest_shared_tasks :: "json \<Rightarrow> string option \<Rightarrow> response"
  rpc_heartbeat :: "json \<Rightarrow> string \<Rightarrow> string \<Rightarrow> response"
  rest_claude_instances :: "json \<Rightarrow> json \<Rightarrow> response"
  patch_claude_instances :: "json \<Rightarrow> json \<Rightarrow> response"

text \<open>The fields of a \<open>ClaudeColab\<close> object; \<open>init\<close> is what \<open>__init__\<close> sets.\<close>

record session =
  api_key :: json
  team_id :: json
  user_id :: json
  claude_name :: json
  project_slug :: string
  connected :: bool

definition init :: session where
  "init = \<lparr>api_key = JNull, team_id = JNull, user_id = JNull, claude_name = JNull,
           project_slug = ''claude-colab'', connected = False\<rparr>"

text \<open>\<open>os.environ.get(name)\<close>.\<close>

definition environ_get :: "world \<Rightarrow> string \<Rightarrow> json" where
  "environ_get w name = of_opt (environ w name)"

text \<open>\<open>keys.get\<close> on a keystore that is not a dict raises inside the \<open>try\<close>.\<close>

definition vend_key :: "world \<Rightarrow> string \<Rightarrow> json" where
  "vend_key w name =
     (case keystore w of
        Missing \<Rightarrow> JNull
      | Corrupt \<Rightarrow> JNull
      | Doc (JDict keys) \<Rightarrow> dict_get keys (upper name) JNull
      | Doc _ \<Rightarrow> JNull)"

text \<open>
  The first block of \<open>connect\<close>: the value of \<open>self.api_key\<close> after it, from the value
  \<open>held\<close> before the call and the argument \<open>key\<close> (the parameter \<open>api_key\<close>). Without an explicit key the held value is the starting point:
  the lookup under the name overwrites it, and with no name it stays.
\<close>

definition resolve_key :: "world \<Rightarrow> json \<Rightarrow> string option \<Rightarrow> string option \<Rightarrow> json" where
  "resolve_key w held key name =
     (if truthy (of_opt key) then of_opt key
      else
        let k1 = (case name of
                    Some n \<Rightarrow> if n \<noteq> [] then environ_get w (''CLAUDE_COLAB_KEY_'' @ upper n)
                              else held
                  | None \<Rightarrow> held);
            k2 = (if \<not> truthy k1 then environ_get w ''CLAUDE_COLAB_KEY'' else k1);
            k3 = (case name of
                    Some n \<Rightarrow> if \<not> truthy k2 \<and> n \<noteq> [] then vend_key w n else k2
                  | None \<Rightarrow> k2)
        in k3)"

definition validate_key :: "world \<Rightarrow> json \<Rightarrow> json" where
  "validate_key w key =
     (case rpc_validate_api_key w key of
        TransportError \<Rightarrow> JNull
      | Http status b \<Rightarrow>
          if status = 200 then
            (case b of
               BadJson \<Rightarrow> JNull
             | Json data \<Rightarrow> if truthy data then first_item data else JNull)
          else JNull)"

text \<open>
  \<open>connect\<close> returns the outcome and the session as it leaves it. A validation result
  that is truthy but not a dict makes \<open>result.get\<close> raise.
\<close>

definition connect ::
  "world \<Rightarrow> session \<Rightarrow> string option \<Rightarrow> string option \<Rightarrow> (py_error + bool) \<times> session" where
  "connect w s key name =
     (let s1 = s\<lparr>api_key := resolve_key w (api_key s) key name\<rparr> in
      if \<not> truthy (api_key s1) then (Inr False, s1)
      else
        let result = validate_key w (api_key s1) in
        if truthy result then
          (case result of
             JDict row \<Rightarrow>
               (Inr True,
                s1\<lparr>team_id := dict_get row ''team_id'' JNull,
                   user_id := dict_get row ''user_id'' JNull,
                   claude_name := dict_get row ''claude_name'' JNull,
                   connected := True\<rparr>)
           | _ \<Rightarrow> (Inl AttributeError, s1))
        else (Inr False, s1))"

definition ensure_connected :: "world \<Rightarrow> session \<Rightarrow> (py_error + bool) \<times> session" where
  "ensure_connected w s = (if \<not> connected s then connect w s None None else (Inr True, s))"


section \<open>Tasks, chat and mentions\<close>

text \<open>\<open>get_tasks\<close> returns the decoded body as it is when the status is 200.\<close>

definition get_tasks :: "world \<Rightarrow> session \<Rightarrow> string option \<Rightarrow> (py_error + json) \<times> session" where
  "get_tasks w s status =
     (case ensure_connected w s of
        (Inl e, s1) \<Rightarrow> (Inl e, s1)
      | (Inr c, s1) \<Rightarrow>
          if \<not> c then (Inr (JList []), s1)
          else
            (Inr (case rest_shared_tasks w (team_id s1)
                         (if truthy (of_opt status) then status else None) of
                    TransportError \<Rightarrow> JList []
                  | Http st b \<Rightarrow>
                      if st = 200 then (case b of BadJson \<Rightarrow> JList [] | Json v \<Rightarrow> v)
                      else JList []),
             s1))"

definition get_chat :: "world \<Rightarrow> session \<Rightarrow> int \<Rightarrow> (py_error + json list) \<times> session" where
  "get_chat w s limit =
     (case ensure_connected w s of
        (Inl e, s1) \<Rightarrow> (Inl e, s1)
      | (Inr c, s1) \<Rightarrow>
          if \<not> c then (Inr [], s1)
          else
            (Inr (case rpc_get_chat w (api_key s1) (project_slug s1) limit of
                    TransportError \<Rightarrow> []
                  | Http st b \<Rightarrow>
                      if st = 200 then
                        (case b of
                           BadJson \<Rightarrow> []
                         | Json v \<Rightarrow> (case py_reversed v of None \<Rightarrow> [] | Some xs \<Rightarrow> xs))
                      else []),
             s1))"

text \<open>The condition of the comprehension in \<open>get_mentions\<close>, on one message.\<close>

definition is_mention :: "string \<Rightarrow> json \<Rightarrow> py_error + bool" where
  "is_mention mention_tag m =
     (case m of
        JDict kvs \<Rightarrow> py_in mention_tag (dict_get kvs ''message'' (JStr []))
      | _ \<Rightarrow> Inl AttributeError)"

text \<open>A comprehension \<open>[m for m in xs if cond(m)]\<close> whose condition may raise.\<close>

fun filter_raising :: "('a \<Rightarrow> py_error + bool) \<Rightarrow> 'a list \<Rightarrow> py_error + 'a list" where
  "filter_raising cond [] = Inr []"
| "filter_raising cond (m # ms) =
     (case cond m of
        Inl e \<Rightarrow> Inl e
      | Inr b \<Rightarrow>
          (case filter_raising cond ms of
             Inl e \<Rightarrow> Inl e
           | Inr r \<Rightarrow> Inr (if b then m # r else r)))"

definition get_mentions :: "world \<Rightarrow> session \<Rightarrow> int \<Rightarrow> (py_error + json list) \<times> session" where
  "get_mentions w s limit =
     (case ensure_connected w s of
        (Inl e, s1) \<Rightarrow> (Inl e, s1)
      | (Inr c, s1) \<Rightarrow>
          if \<not> c then (Inr [], s1)
          else
            (case get_chat w s1 limit of
               (Inl e, s2) \<Rightarrow> (Inl e, s2)
             | (Inr chat, s2) \<Rightarrow>
                 (filter_raising (is_mention (''@'' @ py_str (claude_name s2))) chat, s2)))"

text \<open>The loop of \<open>has_new_mentions\<close>: collect until the message whose id is \<open>since_id\<close>.\<close>

fun collect_until :: "string \<Rightarrow> json list \<Rightarrow> py_error + json list" where
  "collect_until since_id [] = Inr []"
| "collect_until since_id (m # ms) =
     (case m of
        JDict kvs \<Rightarrow>
          if dict_get kvs ''id'' JNull = JStr since_id then Inr []
          else (case collect_until since_id ms of
                  Inl e \<Rightarrow> Inl e
                | Inr r \<Rightarrow> Inr (m # r))
      | _ \<Rightarrow> Inl AttributeError)"

definition has_new_mentions ::
  "world \<Rightarrow> session \<Rightarrow> string option \<Rightarrow> (py_error + json list) \<times> session" where
  "has_new_mentions w s since_id =
     (case get_mentions w s 20 of
        (Inl e, s1) \<Rightarrow> (Inl e, s1)
      | (Inr mentions, s1) \<Rightarrow>
          (case since_id of
             None \<Rightarrow> (Inr mentions, s1)
           | Some sid \<Rightarrow>
               if sid = [] then (Inr mentions, s1)
               else (collect_until sid mentions, s1)))"


section \<open>Checkpoint\<close>

record cp_result =
  passed :: bool
  mentions :: nat
  tasks :: nat
  blockers :: "string list"

text \<open>Iteration over \<open>x or []\<close>, as the comprehension over the pending tasks does it.\<close>

definition iter_or_empty :: "json \<Rightarrow> py_error + json list" where
  "iter_or_empty v =
     (if \<not> truthy v then Inr []
      else case v of
             JList xs \<Rightarrow> Inr xs
           | JStr s \<Rightarrow> Inr (map (\<lambda>c. JStr [c]) s)
           | JDict kvs \<Rightarrow> Inr (map (\<lambda>kv. JStr (fst kv)) kvs)
           | _ \<Rightarrow> Inl TypeError)"

text \<open>\<open>t.get('assigned_to') == self.claude_name\<close>. Equality of decoded values is equality
  here; that Python also equates \<open>True\<close> with \<open>1\<close> and dicts in any order is not modelled.\<close>

definition is_assigned_to :: "json \<Rightarrow> json \<Rightarrow> py_error + bool" where
  "is_assigned_to me t =
     (case t of
        JDict kvs \<Rightarrow> Inr (dict_get kvs ''assigned_to'' JNull = me)
      | _ \<Rightarrow> Inl AttributeError)"

text \<open>The list \<open>my_tasks\<close> of \<open>checkpoint\<close>.\<close>

definition my_tasks :: "world \<Rightarrow> session \<Rightarrow> (py_error + json list) \<times> session" where
  "my_tasks w s =
     (case get_tasks w s (Some ''pending'') of
        (Inl e, s1) \<Rightarrow> (Inl e, s1)
      | (Inr ts, s1) \<Rightarrow>
          (case iter_or_empty ts of
             Inl e \<Rightarrow> (Inl e, s1)
           | Inr xs \<Rightarrow> (filter_raising (is_assigned_to (claude_name s1)) xs, s1)))"

text \<open>The two blocks \<open>if check_mentions:\<close> and \<open>if check_tasks:\<close>, each updating \<open>result\<close>.\<close>

definition mention_check ::
  "world \<Rightarrow> session \<Rightarrow> cp_result \<Rightarrow> (py_error + cp_result) \<times> session" where
  "mention_check w s result =
     (case get_mentions w s 20 of
        (Inl e, s1) \<Rightarrow> (Inl e, s1)
      | (Inr ms, s1) \<Rightarrow>
          (Inr (if ms \<noteq> [] then
                  result\<lparr>mentions := length ms,
                         blockers := blockers result @ [show_nat (length ms) @ '' unread mentions''],
                         passed := False\<rparr>
                else result),
           s1))"

definition task_check ::
  "world \<Rightarrow> session \<Rightarrow> cp_result \<Rightarrow> (py_error + cp_result) \<times> session" where
  "task_check w s result =
     (case my_tasks w s of
        (Inl e, s1) \<Rightarrow> (Inl e, s1)
      | (Inr ts, s1) \<Rightarrow>
          (Inr (if ts \<noteq> [] then
                  result\<lparr>tasks := length ts,
                         blockers := blockers result @ [show_nat (length ts) @ '' pending tasks''],
                         passed := False\<rparr>
                else result),
           s1))"

text \<open>The exception of the hard wall: its only argument is the message, in which the
  list of blockers appears as its \<open>repr\<close>.\<close>

definition hard_failure :: "string \<Rightarrow> string list \<Rightarrow> py_error" where
  "hard_failure name bs =
     RuntimeError (''Hard checkpoint '' @ [CHR 0x27] @ name @ [CHR 0x27] @ '' failed: ''
                   @ py_repr (JList (map JStr bs)))"

definition checkpoint ::
  "world \<Rightarrow> session \<Rightarrow> string \<Rightarrow> bool \<Rightarrow> bool \<Rightarrow> bool \<Rightarrow> (py_error + cp_result) \<times> session" where
  "checkpoint w s name hard check_mentions check_tasks =
     (case ensure_connected w s of
        (Inl e, s1) \<Rightarrow> (Inl e, s1)
      | (Inr c, s1) \<Rightarrow>
          if \<not> c then
            (Inr \<lparr>passed = False, mentions = 0, tasks = 0, blockers = [''Not connected'']\<rparr>, s1)
          else
            (case (if check_mentions
                   then mention_check w s1 \<lparr>passed = True, mentions = 0, tasks = 0, blockers = []\<rparr>
                   else (Inr \<lparr>passed = True, mentions = 0, tasks = 0, blockers = []\<rparr>, s1)) of
               (Inl e, s2) \<Rightarrow> (Inl e, s2)
             | (Inr r1, s2) \<Rightarrow>
                 (case (if check_tasks then task_check w s2 r1 else (Inr r1, s2)) of
                    (Inl e, s3) \<Rightarrow> (Inl e, s3)
                  | (Inr result, s3) \<Rightarrow>
                      if \<not> passed result \<and> hard
                      then (Inl (hard_failure name (blockers result)), s3)
                      else (Inr result, s3))))"


section \<open>Heartbeat\<close>

text \<open>The result dict of \<open>heartbeat\<close>. Its key \<open>mentions\<close> is the field \<open>hb_mentions\<close>; the
  projects are a set, since \<open>list(set(...))\<close> fixes no order.\<close>

record hb_result =
  ok :: bool
  hb_mentions :: nat
  mention_projects :: "json set"

definition get_my_instance :: "world \<Rightarrow> session \<Rightarrow> (py_error + json) \<times> session" where
  "get_my_instance w s =
     (case ensure_connected w s of
        (Inl e, s1) \<Rightarrow> (Inl e, s1)
      | (Inr c, s1) \<Rightarrow>
          if \<not> c then (Inr JNull, s1)
          else
            (Inr (case rest_claude_instances w (claude_name s1) (team_id s1) of
                    TransportError \<Rightarrow> JNull
                  | Http st b \<Rightarrow>
                      if st = 200 then
                        (case b of
                           BadJson \<Rightarrow> JNull
                         | Json data \<Rightarrow> if truthy data then first_item data else JNull)
                      else JNull),
             s1))"

text \<open>\<open>_update_working_on\<close>: everything in it runs inside its own \<open>try\<close>.\<close>

definition update_working_on :: "world \<Rightarrow> session \<Rightarrow> string \<Rightarrow> bool \<times> session" where
  "update_working_on w s working_on =
     (case get_my_instance w s of
        (Inl e, s1) \<Rightarrow> (False, s1)
      | (Inr instance, s1) \<Rightarrow>
          if \<not> truthy instance then (False, s1)
          else
            (case instance of
               JDict kvs \<Rightarrow>
                 (let instance_id = dict_get kvs ''id'' JNull in
                  if \<not> truthy instance_id then (False, s1)
                  else
                    (case patch_claude_instances w instance_id
                            (if working_on \<noteq> [] then JStr (take 200 working_on) else JNull) of
                       TransportError \<Rightarrow> (False, s1)
                     | Http st b \<Rightarrow> (st = 200 \<or> st = 204, s1)))
             | _ \<Rightarrow> (False, s1)))"

text \<open>The presence call and the test \<open>resp.status_code == 200 and resp.json() == True\<close>;
  \<open>1 == True\<close> holds in Python.\<close>

definition emit_presence :: "world \<Rightarrow> session \<Rightarrow> string \<Rightarrow> bool" where
  "emit_presence w s status =
     (case rpc_heartbeat w (api_key s) status (project_slug s) of
        TransportError \<Rightarrow> False
      | Http st b \<Rightarrow>
          st = 200 \<and> (case b of BadJson \<Rightarrow> False | Json v \<Rightarrow> v = JBool True \<or> v = JNum 1))"

text \<open>The set of truthy \<open>project_slug\<close> values; a list or dict among them cannot be
  hashed.\<close>

fun project_slugs :: "json list \<Rightarrow> py_error + json set" where
  "project_slugs [] = Inr {}"
| "project_slugs (m # ms) =
     (case m of
        JDict kvs \<Rightarrow>
          (let p = dict_get kvs ''project_slug'' JNull in
           if truthy p then
             (case p of
                JList xs \<Rightarrow> Inl TypeError
              | JDict d \<Rightarrow> Inl TypeError
              | _ \<Rightarrow> (case project_slugs ms of
                        Inl e \<Rightarrow> Inl e
                      | Inr ps \<Rightarrow> Inr (insert p ps)))
           else project_slugs ms)
      | _ \<Rightarrow> Inl AttributeError)"

definition heartbeat ::
  "world \<Rightarrow> session \<Rightarrow> string \<Rightarrow> string option \<Rightarrow> bool \<Rightarrow> (py_error + hb_result) \<times> session" where
  "heartbeat w s status working_on check_mentions =
     (case ensure_connected w s of
        (Inl e, s1) \<Rightarrow> (Inl e, s1)
      | (Inr c, s1) \<Rightarrow>
          if \<not> c then (Inr \<lparr>ok = False, hb_mentions = 0, mention_projects = {}\<rparr>, s1)
          else
            let result = \<lparr>ok = emit_presence w s1 status, hb_mentions = 0, mention_projects = {}\<rparr>;
                s2 = (case working_on of
                        None \<Rightarrow> s1
                      | Some wo \<Rightarrow> if ok result then snd (update_working_on w s1 wo) else s1)
            in
              if check_mentions then
                (case get_mentions w s2 20 of
                   (Inl e, s3) \<Rightarrow> (Inr result, s3)
                 | (Inr ms, s3) \<Rightarrow>
                     if ms \<noteq> [] then
                       (case project_slugs ms of
                          Inl e \<Rightarrow> (Inr (result\<lparr>hb_mentions := length ms\<rparr>), s3)
                        | Inr ps \<Rightarrow>
                            (Inr (result\<lparr>hb_mentions := length ms, mention_projects := ps\<rparr>), s3))
                     else (Inr result, s3))
              else (Inr result, s2))"


section \<open>Example inputs\<close>

text \<open>A disk on which only the supervisor's folder exists, holding one rule.\<close>

definition black_disk :: disk where
  "black_disk = [''BLACK'' \<mapsto> Doc (JDict [(''rules'', JList [JStr ''r0''])])]"

text \<open>A disk on which a grunt's folder holds one rule.\<close>

definition ollama_disk :: disk where
  "ollama_disk = [''OLLAMA'' \<mapsto> Doc (JDict [(''rules'', JList [JStr ''r1''])])]"

text \<open>A world in which nothing is reachable: no variable, no keystore, no backend.\<close>

definition offline :: world where
  "offline =
     \<lparr>environ = Map.empty, keystore = Missing,
      rpc_validate_api_key = (\<lambda>key. TransportError),
      rpc_get_chat = (\<lambda>key slug limit. TransportError),
      rest_shared_tasks = (\<lambda>team status. TransportError),
      rpc_heartbeat = (\<lambda>key status slug. TransportError),
      rest_claude_instances = (\<lambda>name team. TransportError),
      patch_claude_instances = (\<lambda>ident working_on. TransportError)\<rparr>"

text \<open>
  A backend that knows the key \<open>cc_black\<close>. Its chat, newest first as the backend delivers
  it, holds three messages, of which the newest and the oldest mention \<open>@BLACK\<close>; of its
  two pending tasks one is assigned to \<open>BLACK\<close>.
\<close>

definition black_row :: "(string \<times> json) list" where
  "black_row = [(''team_id'', JStr ''t1''), (''user_id'', JStr ''u1''),
                (''claude_name'', JStr ''BLACK'')]"

definition msg1 :: json where
  "msg1 = JDict [(''id'', JStr ''m1''), (''author'', JStr ''OLLAMA''),
                 (''message'', JStr ''@BLACK hello''), (''project_slug'', JStr ''claude-colab''),
                 (''created_at'', JStr ''2025-01-01T10:00:00'')]"

definition msg2 :: json where
  "msg2 = JDict [(''id'', JStr ''m2''), (''author'', JStr ''OLLAMA''),
                 (''message'', JStr ''build is green''), (''project_slug'', JStr ''claude-colab''),
                 (''created_at'', JStr ''2025-01-01T11:00:00'')]"

definition msg3 :: json where
  "msg3 = JDict [(''id'', JStr ''m3''), (''author'', JStr ''INTOLERANT''),
                 (''message'', JStr ''please review, @BLACK''),
                 (''project_slug'', JStr ''claude-colab''),
                 (''created_at'', JStr ''2025-01-01T12:00:00'')]"

definition backend :: world where
  "backend =
     \<lparr>environ = Map.empty, keystore = Missing,
      rpc_validate_api_key =
        (\<lambda>key. if key = JStr ''cc_black'' then Http 200 (Json (JList [JDict black_row]))
              else Http 200 (Json (JList []))),
      rpc_get_chat = (\<lambda>key slug limit. Http 200 (Json (JList [msg3, msg2, msg1]))),
      rest_shared_tasks =
        (\<lambda>team status.
           Http 200 (Json (JList [JDict [(''id'', JStr ''k1''), (''assigned_to'', JStr ''BLACK'')],
                                  JDict [(''id'', JStr ''k2''), (''assigned_to'', JStr ''OLLAMA'')]]))),
      rpc_heartbeat = (\<lambda>key status slug. Http 200 (Json (JBool True))),
      rest_claude_instances = (\<lambda>name team. Http 200 (Json (JList []))),
      patch_claude_instances = (\<lambda>ident working_on. Http 204 BadJson)\<rparr>"

text \<open>The session after \<open>connect("cc_black")\<close> against that backend.\<close>

definition black_session :: session where
  "black_session =
     \<lparr>api_key = JStr ''cc_black'', team_id = JStr ''t1'', user_id = JStr ''u1'',
      claude_name = JStr ''BLACK'', project_slug = ''claude-colab'', connected = True\<rparr>"

text \<open>A machine on which all sources of a credential for \<open>BLACK\<close> are populated, each
  with a different key; the backend is out of reach.\<close>

definition sources :: world where
  "sources =
     offline\<lparr>environ := [''CLAUDE_COLAB_KEY_BLACK'' \<mapsto> ''cc_scoped'',
                         ''CLAUDE_COLAB_KEY'' \<mapsto> ''cc_generic''],
             keystore := Doc (JDict [(''_comment'', JStr ''keys''),
                                     (''_updated'', JStr ''2025-01-01 10:00''),
                                     (''BLACK'', JStr ''cc_vended'')])\<rparr>"


text \<open>The same backend with a chat channel that answers 500, and with one that delivers
  a message whose text is \<open>null\<close>.\<close>

definition chat_down :: world where
  "chat_down = backend\<lparr>rpc_get_chat := (\<lambda>key slug limit. Http 500 BadJson)\<rparr>"

definition chat_broken :: world where
  "chat_broken =
     backend\<lparr>rpc_get_chat :=
               (\<lambda>key slug limit.
                  Http 200 (Json (JList [JDict [(''id'', JStr ''m9''), (''message'', JNull)]])))\<rparr>"


text \<open>A backend whose validation answers 200 with a row that is a string.\<close>

definition odd_backend :: world where
  "odd_backend =
     backend\<lparr>rpc_validate_api_key := (\<lambda>key. Http 200 (Json (JList [JStr ''abc''])))\<rparr>"


section \<open>Properties of the role hierarchy\<close>

text \<open>The rank the two tables give a name is the rank of its role in the enumeration.\<close>

lemma rank_role_of:
  "dict_get ROLE_HIERARCHY (dict_get BOT_ROLES (upper n) ''bot'') 0 = rank (role_of n)"
  by (simp add: dict_get_def BOT_ROLES_def ROLE_HIERARCHY_def role_of_def Let_def)

lemma role_of_unknown: "map_of BOT_ROLES (upper u) = None \<Longrightarrow> role_of u = Bot"
  by (simp add: BOT_ROLES_def role_of_def Let_def split: if_splits)

text \<open>
  Claim C5. For every pair of names, \<open>can_manage_bot m t\<close> holds exactly when the rank of
  \<open>m\<close>'s role is strictly greater than the rank of \<open>t\<close>'s role, in the order
  supervisor > manager > worker > grunt > bot. Equal ranks never grant management, and a
  name that is not in the role table (after upper-casing) counts as a bot of rank 0, the
  lowest rank.
\<close>

theorem can_manage_bot_rank:
  "(can_manage_bot m t \<longleftrightarrow> rank (role_of m) > rank (role_of t))
   \<and> (rank (role_of m) = rank (role_of t) \<longrightarrow> \<not> can_manage_bot m t)
   \<and> (map_of BOT_ROLES (upper u) = None \<longrightarrow>
        role_of u = Bot \<and> rank (role_of u) = 0 \<and> \<not> can_manage_bot u t
        \<and> (can_manage_bot m u \<longleftrightarrow> rank (role_of m) > 0))
   \<and> rank Supervisor > rank Manager \<and> rank Manager > rank Worker
   \<and> rank Worker > rank Grunt \<and> rank Grunt > rank Bot
   \<and> rank Bot = 0 \<and> rank (role_of m) \<ge> 0"
proof -
  have iff: "\<And>a b. can_manage_bot a b \<longleftrightarrow> rank (role_of a) > rank (role_of b)"
    by (simp add: can_manage_bot_def Let_def rank_role_of)
  have nonneg: "\<And>a. rank (role_of a) \<ge> 0"
    by (simp add: role_of_def Let_def)
  have unk: "map_of BOT_ROLES (upper u) = None \<Longrightarrow> rank (role_of u) = 0"
    by (simp add: role_of_unknown)
  show ?thesis
    using iff nonneg unk role_of_unknown [of u]
    by (auto simp: not_less)
qed

theorem can_manage_bot_rank_witness:
  "rank (role_of ''intolerant'') = rank (role_of ''INTOLERANT'')
   \<and> \<not> can_manage_bot ''intolerant'' ''INTOLERANT''
   \<and> map_of BOT_ROLES (upper ''nobody'') = None
   \<and> \<not> can_manage_bot ''nobody'' ''INTOLERANT''
   \<and> can_manage_bot ''intolerant'' ''nobody''"
  using can_manage_bot_rank [of "''intolerant''" "''INTOLERANT''" "''nobody''"]
  by (simp add: role_of_def upper_def upper_char_def BOT_ROLES_def)


section \<open>Properties of the settings store\<close>

lemma ollama_cannot_manage_black: "\<not> can_manage_bot ''OLLAMA'' ''BLACK''"
  by (simp add: can_manage_bot_def dict_get_def BOT_ROLES_def ROLE_HIERARCHY_def
      upper_def upper_char_def)

lemma get_bot_settings_black_disk:
  "get_bot_settings black_disk ''BLACK'' = JDict [(''rules'', JList [JStr ''r0''])]"
  by (simp add: get_bot_settings_def get_bot_folder_def settings_file_def black_disk_def
      upper_def upper_char_def)

text \<open>
  Claim C7. A settings write with a non-empty \<open>manager_name\<close> that \<open>can_manage_bot\<close>
  rejects returns \<open>False\<close>, raises nothing, and leaves the disk as it was: reading the
  target's settings after the rejected write gives the document read before it.
\<close>

theorem set_bot_settings_denied:
  "m \<noteq> [] \<Longrightarrow> \<not> can_manage_bot m target \<Longrightarrow>
     set_bot_settings d target patch (Some m) = (False, d)
     \<and> get_bot_settings (snd (set_bot_settings d target patch (Some m))) target
         = get_bot_settings d target"
  by (simp add: set_bot_settings_def)

theorem set_bot_settings_denied_witness:
  "''OLLAMA'' \<noteq> [] \<and> \<not> can_manage_bot ''OLLAMA'' ''BLACK''
   \<and> set_bot_settings black_disk ''BLACK'' [(''rules'', JList [JStr ''r1''])] (Some ''OLLAMA'')
       = (False, black_disk)
   \<and> get_bot_settings black_disk ''BLACK'' = JDict [(''rules'', JList [JStr ''r0''])]"
  using set_bot_settings_denied [of "''OLLAMA''" "''BLACK''" black_disk
      "[(''rules'', JList [JStr ''r1''])]"]
    ollama_cannot_manage_black get_bot_settings_black_disk
  by simp

subsection \<open>Adding a rule twice\<close>

lemma fold_update_same:
  "distinct (map fst d) \<Longrightarrow> set xs \<subseteq> set d \<Longrightarrow>
     fold (\<lambda>kv d. AList.update (fst kv) (snd kv) d) xs d = d"
proof (induction xs)
  case Nil
  then show ?case by simp
next
  case (Cons kv xs)
  then have "map_of d (fst kv) = Some (snd kv)" by simp
  then have "AList.update (fst kv) (snd kv) d = d" by (rule AList.update_triv)
  with Cons show ?case by simp
qed

lemma dict_update_self: "distinct (map fst d) \<Longrightarrow> dict_update d d = d"
  by (simp add: dict_update_def fold_update_same)

lemma wf_json_entry: "wf_json (JDict e) \<Longrightarrow> map_of e k = Some v \<Longrightarrow> wf_json v"
  by (auto simp: list_all_iff dest: map_of_SomeD)

lemma merge_key_present:
  assumes wf: "wf_json (JDict e)" and v: "map_of e k = Some v"
  shows "merge_key (k, v) e = e"
proof (cases v)
  case (JDict v')
  from wf v have "wf_json v" by (rule wf_json_entry)
  with JDict have "dict_update v' v' = v'" by (simp add: dict_update_self)
  with v JDict show ?thesis by (simp add: merge_key_def AList.update_triv)
qed (use v in \<open>simp_all add: merge_key_def AList.update_triv\<close>)

lemma get_bot_settings_JDict:
  "get_bot_settings d b = JDict e \<Longrightarrow> d (upper b) = Some (Doc (JDict e))"
  by (auto simp: get_bot_settings_def get_bot_folder_def settings_file_def Let_def
      split: if_splits option.splits file_state.splits)

lemma set_present_unchanged:
  assumes g: "get_bot_settings d b = JDict e" and wf: "wf_json (JDict e)"
    and v: "map_of e k = Some v"
  shows "snd (set_bot_settings d b [(k, v)] m) = d"
proof -
  from g have f: "d (upper b) = Some (Doc (JDict e))" by (rule get_bot_settings_JDict)
  have "d(upper b \<mapsto> Doc (JDict e)) = d" using f by (rule map_upd_triv)
  then show ?thesis
    using f merge_key_present [OF wf v]
    by (simp add: set_bot_settings_def get_bot_folder_def settings_file_def deep_merge_def Let_def)
qed



lemma add_present_unchanged:
  assumes g: "get_bot_settings d b = JDict e" and wf: "wf_json (JDict e)"
    and p: "py_in r (dict_get e ''rules'' (JList [])) = Inr True"
  shows "snd (add_bot_rule d b r m) = d"
proof -
  from p obtain v where v: "map_of e ''rules'' = Some v"
    by (cases "map_of e ''rules''") (auto simp: dict_get_def)
  then have dg: "dict_get e ''rules'' (JList []) = v" by (simp add: dict_get_def)
  from v have ne: "e \<noteq> []" by auto
  have "snd (set_bot_settings d b [(''rules'', v)] m) = d"
    using g wf v by (rule set_present_unchanged)
  then show ?thesis
    using g ne p dg
    by (auto simp: add_bot_rule_def Let_def split: prod.splits)
qed

lemma merge_key_list: "merge_key (k, JList ys) e = AList.update k (JList ys) e"
  by (simp add: merge_key_def)

lemma set_listed_unchanged:
  assumes g: "get_bot_settings d b = JDict e" and v: "map_of e k = Some (JList xs)"
  shows "snd (set_bot_settings d b [(k, JList xs)] m) = d"
proof -
  from g have f: "d (upper b) = Some (Doc (JDict e))" by (rule get_bot_settings_JDict)
  have "d(upper b \<mapsto> Doc (JDict e)) = d" using f by (rule map_upd_triv)
  moreover have "AList.update k (JList xs) e = e" using v by (rule AList.update_triv)
  ultimately show ?thesis
    using f
    by (simp add: set_bot_settings_def get_bot_folder_def settings_file_def deep_merge_def
        merge_key_list Let_def)
qed

lemma add_listed_unchanged:
  assumes g: "get_bot_settings d b = JDict e" and v: "map_of e ''rules'' = Some (JList xs)"
    and r: "JStr r \<in> set xs"
  shows "snd (add_bot_rule d b r m) = d"
proof -
  from v have ne: "e \<noteq> []" by auto
  from v have dg: "dict_get e ''rules'' (JList []) = JList xs" by (simp add: dict_get_def)
  have "snd (set_bot_settings d b [(''rules'', JList xs)] m) = d"
    using g v by (rule set_listed_unchanged)
  then show ?thesis
    using g ne dg r
    by (auto simp: add_bot_rule_def Let_def split: prod.splits)
qed

lemma set_list_patch:
  assumes "set_bot_settings d b [(k, JList ys)] m = (x, d')" and "d' \<noteq> d"
  shows "\<exists>e. x
           \<and> \<not> (truthy (of_opt m) \<and> \<not> can_manage_bot (case m of Some n \<Rightarrow> n | None \<Rightarrow> []) b)
           \<and> (d (upper b) = Some Missing \<and> e = [] \<or> d (upper b) = Some (Doc (JDict e)))
           \<and> d' = d(upper b \<mapsto> Doc (JDict (AList.update k (JList ys) e)))"
  using assms
  by (auto simp: set_bot_settings_def get_bot_folder_def settings_file_def deep_merge_def
      merge_key_list Let_def
      split: if_splits option.splits file_state.splits json.splits)

lemma set_list_patch_again:
  assumes "\<not> (truthy (of_opt m) \<and> \<not> can_manage_bot (case m of Some n \<Rightarrow> n | None \<Rightarrow> []) b)"
    and "d' (upper b) = Some (Doc (JDict (AList.update k (JList ys) e)))"
  shows "set_bot_settings d' b [(k, JList ys)] m = (True, d')"
proof -
  have "d'(upper b \<mapsto> Doc (JDict (AList.update k (JList ys) e))) = d'"
    using assms(2) by (rule map_upd_triv)
  then show ?thesis
    using assms
    by (simp add: set_bot_settings_def get_bot_folder_def settings_file_def deep_merge_def
        merge_key_list Let_def)
qed


lemma add_bot_rule_write:
  assumes wf: "wf_json (get_bot_settings d b)" and ch: "snd (add_bot_rule d b r m) \<noteq> d"
  shows "\<exists>kvs xs.
           (get_bot_settings d b = JDict kvs \<or> kvs = [] \<and> \<not> truthy (get_bot_settings d b))
           \<and> dict_get kvs ''rules'' (JList []) = JList xs
           \<and> add_bot_rule d b r m =
               (case set_bot_settings d b [(''rules'', JList (xs @ [JStr r]))] m of
                  (x, d') \<Rightarrow> (Inr x, d'))"
proof (cases "truthy (get_bot_settings d b)")
  case False
  then have "add_bot_rule d b r m =
      (case set_bot_settings d b [(''rules'', JList ([] @ [JStr r]))] m of (x, d') \<Rightarrow> (Inr x, d'))"
    by (simp add: add_bot_rule_def Let_def dict_get_def)
  with False show ?thesis
    by (intro exI [of _ "[]"]) (simp add: dict_get_def)
next
  case True
  show ?thesis
  proof (cases "get_bot_settings d b")
    case (JDict kvs)
    show ?thesis
    proof (cases "py_in r (dict_get kvs ''rules'' (JList []))")
      case (Inl e)
      with True JDict ch show ?thesis by (simp add: add_bot_rule_def Let_def)
    next
      case (Inr present)
      show ?thesis
      proof (cases present)
        case True
        with Inr JDict wf have "snd (add_bot_rule d b r m) = d"
          by (simp add: add_present_unchanged)
        with ch show ?thesis by simp
      next
        case False
        with Inr \<open>truthy (get_bot_settings d b)\<close> JDict ch show ?thesis
          by (cases "dict_get kvs ''rules'' (JList [])")
            (simp_all add: add_bot_rule_def Let_def)
      qed
    qed
  qed (use True ch in \<open>simp_all add: add_bot_rule_def Let_def\<close>)
qed

lemma black_manages_ollama: "can_manage_bot ''BLACK'' ''OLLAMA''"
  by (simp add: can_manage_bot_def dict_get_def BOT_ROLES_def ROLE_HIERARCHY_def
      upper_def upper_char_def)

lemma get_bot_settings_ollama_disk:
  "get_bot_settings ollama_disk ''OLLAMA'' = JDict [(''rules'', JList [JStr ''r1''])]"
  by (simp add: get_bot_settings_def get_bot_folder_def settings_file_def ollama_disk_def
      upper_def upper_char_def)

lemma add_first_rule:
  "add_bot_rule [''OLLAMA'' \<mapsto> Missing] ''OLLAMA'' ''r1'' (Some ''BLACK'')
     = (Inr True, ollama_disk)"
  using black_manages_ollama
  by (simp add: add_bot_rule_def get_bot_settings_def get_bot_folder_def settings_file_def
        set_bot_settings_def deep_merge_def merge_key_def dict_get_def upper_def upper_char_def
        ollama_disk_def)

text \<open>
  Claim C8. \<open>add_bot_rule\<close> is idempotent. When the rule is already in the rules array of
  the target's document, the call leaves the disk, and so the array, as it was: no second
  entry appears. For every document, calling \<open>add_bot_rule\<close> a second time with the same
  arguments gives the outcome and the disk of the first call. (For this second part the
  document is a real decoded value, \<open>wf_json\<close>: no dict in it repeats a key.)
\<close>

theorem add_bot_rule_idempotent:
  "(get_bot_settings d b = JDict e \<and> map_of e ''rules'' = Some (JList xs)
      \<and> JStr r \<in> set xs
     \<longrightarrow> snd (add_bot_rule d b r m) = d
         \<and> get_bot_settings (snd (add_bot_rule d b r m)) b = JDict e)
   \<and> (wf_json (get_bot_settings d b)
     \<longrightarrow> add_bot_rule (snd (add_bot_rule d b r m)) b r m = add_bot_rule d b r m)"
proof (rule conjI; rule impI)
  assume a: "get_bot_settings d b = JDict e
      \<and> map_of e ''rules'' = Some (JList xs) \<and> JStr r \<in> set xs"
  then have "snd (add_bot_rule d b r m) = d"
    by (simp add: add_listed_unchanged)
  with a show "snd (add_bot_rule d b r m) = d
      \<and> get_bot_settings (snd (add_bot_rule d b r m)) b = JDict e"
    by simp
next
  assume wf: "wf_json (get_bot_settings d b)"
  show "add_bot_rule (snd (add_bot_rule d b r m)) b r m = add_bot_rule d b r m"
  proof (cases "snd (add_bot_rule d b r m) = d")
    case True
    then show ?thesis by simp
  next
    case False
    from add_bot_rule_write [OF wf False] obtain kvs xs where
      a: "add_bot_rule d b r m =
               (case set_bot_settings d b [(''rules'', JList (xs @ [JStr r]))] m of
                  (x, d') \<Rightarrow> (Inr x, d'))"
      by (elim exE conjE)
    obtain x d' where s: "set_bot_settings d b [(''rules'', JList (xs @ [JStr r]))] m = (x, d')"
      by (cases "set_bot_settings d b [(''rules'', JList (xs @ [JStr r]))] m")
    with a have ad: "add_bot_rule d b r m = (Inr x, d')" by simp
    with False have "d' \<noteq> d" by simp
    then have dd: "d' \<noteq> d" .
    from set_list_patch [OF s dd] obtain e where x: x
      and ok: "\<not> (truthy (of_opt m) \<and> \<not> can_manage_bot (case m of Some n \<Rightarrow> n | None \<Rightarrow> []) b)"
      and d': "d' = d(upper b \<mapsto> Doc (JDict (AList.update ''rules'' (JList (xs @ [JStr r])) e)))"
      by (elim exE conjE)
    let ?e' = "AList.update ''rules'' (JList (xs @ [JStr r])) e"
    from d' have f: "d' (upper b) = Some (Doc (JDict ?e'))" by simp
    then have g: "get_bot_settings d' b = JDict ?e'"
      by (simp add: get_bot_settings_def get_bot_folder_def settings_file_def Let_def)
    have ne: "?e' \<noteq> []" by (cases e) auto
    have dg: "dict_get ?e' ''rules'' (JList []) = JList (xs @ [JStr r])"
      by (simp add: dict_get_def AList.update_conv')
    have again: "set_bot_settings d' b [(''rules'', JList (xs @ [JStr r]))] m = (True, d')"
      using ok f by (rule set_list_patch_again)
    have "add_bot_rule d' b r m = (Inr True, d')"
      using g ne dg again by (simp add: add_bot_rule_def Let_def)
    with ad x show ?thesis by simp
  qed
qed

theorem add_bot_rule_idempotent_witness:
  "get_bot_settings ollama_disk ''OLLAMA'' = JDict [(''rules'', JList [JStr ''r1''])]
   \<and> wf_json (JDict [(''rules'', JList [JStr ''r1''])])
   \<and> map_of [(''rules'', JList [JStr ''r1''])] ''rules'' = Some (JList [JStr ''r1''])
   \<and> JStr ''r1'' \<in> set [JStr ''r1'']
   \<and> snd (add_bot_rule ollama_disk ''OLLAMA'' ''r1'' (Some ''BLACK'')) = ollama_disk
   \<and> add_bot_rule (snd (add_bot_rule ollama_disk ''OLLAMA'' ''r1'' (Some ''BLACK'')))
         ''OLLAMA'' ''r1'' (Some ''BLACK'')
       = add_bot_rule ollama_disk ''OLLAMA'' ''r1'' (Some ''BLACK'')"
  using add_bot_rule_idempotent [of ollama_disk "''OLLAMA''" "[(''rules'', JList [JStr ''r1''])]"
      "[JStr ''r1'']" "''r1''" "Some ''BLACK''"]
    get_bot_settings_ollama_disk
  by simp

section \<open>Properties of the session\<close>

lemma first_item_falsy: "\<not> truthy data \<Longrightarrow> first_item data = JNull"
  by (cases data rule: first_item.cases) simp_all

lemma validate_key_200:
  "rpc_validate_api_key w key = Http 200 (Json data) \<Longrightarrow> validate_key w key = first_item data"
  by (simp add: validate_key_def first_item_falsy)

lemma validate_key_no_row:
  "rpc_validate_api_key w key = TransportError
   \<or> (\<exists>st b. rpc_validate_api_key w key = Http st b
         \<and> (st \<noteq> 200 \<or> b = BadJson
            \<or> (\<exists>data. b = Json data \<and> (\<not> truthy data \<or> \<not> truthy (first_item data)))))
   \<Longrightarrow> \<not> truthy (validate_key w key)"
  by (auto simp: validate_key_def first_item_falsy split: if_splits)

text \<open>
  Claim C4, as the code has it. In every prior state of the session: when the resolved key
  is truthy and validation answers 200 with a list whose first row is a non-empty dict,
  \<open>connect\<close> stores \<open>team_id\<close>, \<open>user_id\<close> and \<open>claude_name\<close> from that row, sets
  \<open>connected\<close> and returns \<open>True\<close>. When no key is found, or the request fails in
  transport, or the status is not 200, or the body does not parse, or the result is empty,
  or its first item is empty or \<open>None\<close>, it returns \<open>False\<close> and raises nothing; it has then
  overwritten \<open>api_key\<close> only, so \<open>connected\<close> and the identity fields are what they were
  before the call: \<open>connected\<close> is false afterwards if it was false before, and stays true
  on a session that was connected. The one response this leaves out is a 200 whose first
  item is non-empty and not a dict.
\<close>

theorem connect_outcomes:
  "(truthy (resolve_key w (api_key s) k name)
      \<and> rpc_validate_api_key w (resolve_key w (api_key s) k name)
          = Http 200 (Json (JList (JDict row # rows)))
      \<and> row \<noteq> []
     \<longrightarrow> connect w s k name =
           (Inr True,
            s\<lparr>api_key := resolve_key w (api_key s) k name,
               team_id := dict_get row ''team_id'' JNull,
               user_id := dict_get row ''user_id'' JNull,
               claude_name := dict_get row ''claude_name'' JNull,
               connected := True\<rparr>))
   \<and> (\<not> truthy (resolve_key w (api_key s) k name)
      \<or> rpc_validate_api_key w (resolve_key w (api_key s) k name) = TransportError
      \<or> (\<exists>st b. rpc_validate_api_key w (resolve_key w (api_key s) k name) = Http st b
            \<and> (st \<noteq> 200 \<or> b = BadJson
               \<or> (\<exists>data. b = Json data \<and> (\<not> truthy data \<or> \<not> truthy (first_item data)))))
     \<longrightarrow> connect w s k name = (Inr False, s\<lparr>api_key := resolve_key w (api_key s) k name\<rparr>)
         \<and> connected (snd (connect w s k name)) = connected s
         \<and> (\<not> connected s \<longrightarrow> \<not> connected (snd (connect w s k name))))"
proof (rule conjI; rule impI)
  assume "truthy (resolve_key w (api_key s) k name)
      \<and> rpc_validate_api_key w (resolve_key w (api_key s) k name)
          = Http 200 (Json (JList (JDict row # rows)))
      \<and> row \<noteq> []"
  then show "connect w s k name =
           (Inr True,
            s\<lparr>api_key := resolve_key w (api_key s) k name,
               team_id := dict_get row ''team_id'' JNull,
               user_id := dict_get row ''user_id'' JNull,
               claude_name := dict_get row ''claude_name'' JNull,
               connected := True\<rparr>)"
    by (simp add: connect_def validate_key_def Let_def)
next
  assume a: "\<not> truthy (resolve_key w (api_key s) k name)
      \<or> rpc_validate_api_key w (resolve_key w (api_key s) k name) = TransportError
      \<or> (\<exists>st b. rpc_validate_api_key w (resolve_key w (api_key s) k name) = Http st b
            \<and> (st \<noteq> 200 \<or> b = BadJson
               \<or> (\<exists>data. b = Json data \<and> (\<not> truthy data \<or> \<not> truthy (first_item data)))))"
  have "connect w s k name = (Inr False, s\<lparr>api_key := resolve_key w (api_key s) k name\<rparr>)"
  proof (cases "truthy (resolve_key w (api_key s) k name)")
    case False
    then show ?thesis by (simp add: connect_def Let_def)
  next
    case True
    with a have "\<not> truthy (validate_key w (resolve_key w (api_key s) k name))"
      by (intro validate_key_no_row) blast
    with True show ?thesis by (simp add: connect_def Let_def)
  qed
  then show "connect w s k name = (Inr False, s\<lparr>api_key := resolve_key w (api_key s) k name\<rparr>)
         \<and> connected (snd (connect w s k name)) = connected s
         \<and> (\<not> connected s \<longrightarrow> \<not> connected (snd (connect w s k name)))"
    by simp
qed

text \<open>The outcome that is left: a first item that is truthy and not a dict.\<close>

lemma connect_malformed_row:
  assumes "truthy (resolve_key w (api_key s) k name)"
    and "rpc_validate_api_key w (resolve_key w (api_key s) k name) = Http 200 (Json data)"
    and "truthy (first_item data)" and "\<forall>row. first_item data \<noteq> JDict row"
  shows "connect w s k name = (Inl AttributeError, s\<lparr>api_key := resolve_key w (api_key s) k name\<rparr>)"
  using assms
  by (cases "first_item data") (simp_all add: connect_def validate_key_200 Let_def)

text \<open>The three cases leave no response out.\<close>

lemma validation_cases:
  "(\<exists>row rows. r = Http 200 (Json (JList (JDict row # rows))) \<and> row \<noteq> [])
   \<or> r = TransportError
   \<or> (\<exists>st b. r = Http st b
         \<and> (st \<noteq> 200 \<or> b = BadJson
            \<or> (\<exists>data. b = Json data \<and> (\<not> truthy data \<or> \<not> truthy (first_item data)))))
   \<or> (\<exists>data. r = Http 200 (Json data) \<and> truthy (first_item data)
         \<and> (\<forall>row. first_item data \<noteq> JDict row))"
proof (cases r)
  case TransportError
  then show ?thesis by simp
next
  case (Http st b)
  show ?thesis
  proof (cases "st = 200")
    case False
    with Http show ?thesis by simp
  next
    case True
    show ?thesis
    proof (cases b)
      case BadJson
      with Http show ?thesis by simp
    next
      case (Json data)
      show ?thesis
      proof (cases "truthy (first_item data)")
        case False
        with Http Json show ?thesis by simp
      next
        case t: True
        show ?thesis
        proof (cases "\<exists>row. first_item data = JDict row")
          case False
          with Http Json True t show ?thesis by simp
        next
          case True
          then obtain row where row: "first_item data = JDict row" by blast
          then obtain rows where "data = JList (JDict row # rows)"
            by (cases data rule: first_item.cases) simp_all
          moreover from t row have "row \<noteq> []" by simp
          ultimately show ?thesis using Http Json \<open>st = 200\<close> by simp
        qed
      qed
    qed
  qed
qed

lemma resolve_explicit: "k \<noteq> [] \<Longrightarrow> resolve_key w held (Some k) name = JStr k"
  by (simp add: resolve_key_def)

lemma connect_black:
  "connect backend init (Some ''cc_black'') None = (Inr True, black_session)"
  by (simp add: connect_def validate_key_def resolve_key_def backend_def init_def
      black_session_def black_row_def dict_get_def Let_def)

text \<open>A session that is connected stays so when a later \<open>connect\<close> with a key the
  backend does not know returns \<open>False\<close>; and a 200 whose first row is a string makes
  \<open>connect\<close> raise.\<close>

theorem connect_outcomes_counterexample:
  "fst (connect backend black_session (Some ''cc_bad'') None) = Inr False
   \<and> connected (snd (connect backend black_session (Some ''cc_bad'') None))
   \<and> fst (connect odd_backend init (Some ''cc_black'') None) = Inl AttributeError"
  by (simp add: connect_def validate_key_def resolve_key_def backend_def odd_backend_def
      black_session_def init_def Let_def)

theorem connect_outcomes_witness:
  "truthy (resolve_key backend (api_key init) (Some ''cc_black'') None)
   \<and> rpc_validate_api_key backend (resolve_key backend (api_key init) (Some ''cc_black'') None)
       = Http 200 (Json (JList (JDict black_row # [])))
   \<and> black_row \<noteq> []
   \<and> connect backend init (Some ''cc_black'') None = (Inr True, black_session)
   \<and> rpc_validate_api_key offline (resolve_key offline (api_key init) (Some ''cc_black'') None)
       = TransportError
   \<and> connect offline init (Some ''cc_black'') None = (Inr False, init\<lparr>api_key := JStr ''cc_black''\<rparr>)
   \<and> \<not> connected (snd (connect offline init (Some ''cc_black'') None))
   \<and> rpc_validate_api_key backend (resolve_key backend (api_key init) (Some ''cc_bad'') None)
       = Http 200 (Json (JList []))
   \<and> connect backend init (Some ''cc_bad'') None = (Inr False, init\<lparr>api_key := JStr ''cc_bad''\<rparr>)"
  using connect_outcomes [of backend init "Some ''cc_black''" None black_row "[]"]
    connect_outcomes [of offline init "Some ''cc_black''" None]
    connect_outcomes [of backend init "Some ''cc_bad''" None]
  by (simp add: resolve_explicit backend_def offline_def black_row_def init_def black_session_def
      dict_get_def)

subsection \<open>Which key is used\<close>

text \<open>
  The order in which \<open>connect\<close> looks for a key. An explicit key is used whenever it is
  given. Without it and with a name, the key is the variable scoped to the name, else the
  generic variable, else the keystore entry for the name, first hit wins, whatever the
  session held; with none of them \<open>connect\<close> returns \<open>False\<close>. Without explicit key and
  without name, a session that holds no key takes the generic variable, and \<open>connect\<close>
  returns \<open>False\<close> if that is absent too; a session that already holds a key keeps it.
\<close>

lemma resolve_key_order:
  "(k \<noteq> [] \<longrightarrow> resolve_key w held (Some k) name = JStr k)
   \<and> (\<not> truthy (of_opt key) \<and> n \<noteq> [] \<longrightarrow>
        resolve_key w held key (Some n) =
          (if truthy (environ_get w (''CLAUDE_COLAB_KEY_'' @ upper n))
           then environ_get w (''CLAUDE_COLAB_KEY_'' @ upper n)
           else if truthy (environ_get w ''CLAUDE_COLAB_KEY'')
           then environ_get w ''CLAUDE_COLAB_KEY''
           else vend_key w n))
   \<and> (\<not> truthy (of_opt key) \<and> n \<noteq> []
        \<and> \<not> truthy (environ_get w (''CLAUDE_COLAB_KEY_'' @ upper n))
        \<and> \<not> truthy (environ_get w ''CLAUDE_COLAB_KEY'')
        \<and> \<not> truthy (vend_key w n) \<longrightarrow>
        fst (connect w s key (Some n)) = Inr False)
   \<and> (\<not> truthy (of_opt key) \<and> \<not> truthy (of_opt name) \<and> \<not> truthy held \<longrightarrow>
        resolve_key w held key name = environ_get w ''CLAUDE_COLAB_KEY'')
   \<and> (\<not> truthy (of_opt key) \<and> \<not> truthy (of_opt name) \<and> \<not> truthy (api_key s)
        \<and> \<not> truthy (environ_get w ''CLAUDE_COLAB_KEY'') \<longrightarrow>
        fst (connect w s key name) = Inr False)
   \<and> (\<not> truthy (of_opt key) \<and> \<not> truthy (of_opt name) \<and> truthy held \<longrightarrow>
        resolve_key w held key name = held)"
proof -
  have none: "\<not> truthy (of_opt name) \<Longrightarrow> name = None \<or> name = Some []" for name
    by (cases name) auto
  have a: "k \<noteq> [] \<longrightarrow> resolve_key w held (Some k) name = JStr k"
    by (simp add: resolve_key_def)
  have b: "\<not> truthy (of_opt key) \<and> n \<noteq> [] \<longrightarrow>
        resolve_key w held key (Some n) =
          (if truthy (environ_get w (''CLAUDE_COLAB_KEY_'' @ upper n))
           then environ_get w (''CLAUDE_COLAB_KEY_'' @ upper n)
           else if truthy (environ_get w ''CLAUDE_COLAB_KEY'')
           then environ_get w ''CLAUDE_COLAB_KEY''
           else vend_key w n)"
    by (simp add: resolve_key_def Let_def)
  have c: "\<not> truthy (of_opt key) \<and> n \<noteq> []
        \<and> \<not> truthy (environ_get w (''CLAUDE_COLAB_KEY_'' @ upper n))
        \<and> \<not> truthy (environ_get w ''CLAUDE_COLAB_KEY'')
        \<and> \<not> truthy (vend_key w n) \<longrightarrow>
        fst (connect w s key (Some n)) = Inr False"
    by (simp add: connect_def resolve_key_def Let_def)
  have d: "\<not> truthy (of_opt key) \<and> \<not> truthy (of_opt name) \<and> \<not> truthy held \<longrightarrow>
        resolve_key w held key name = environ_get w ''CLAUDE_COLAB_KEY''"
    using none [of name] by (auto simp: resolve_key_def Let_def)
  have e: "\<not> truthy (of_opt key) \<and> \<not> truthy (of_opt name) \<and> \<not> truthy (api_key s)
        \<and> \<not> truthy (environ_get w ''CLAUDE_COLAB_KEY'') \<longrightarrow>
        fst (connect w s key name) = Inr False"
    using none [of name] by (auto simp: connect_def resolve_key_def Let_def)
  have f: "\<not> truthy (of_opt key) \<and> \<not> truthy (of_opt name) \<and> truthy held \<longrightarrow>
        resolve_key w held key name = held"
    using none [of name] by (auto simp: resolve_key_def Let_def)
  from a b c d e f show ?thesis by (intro conjI)
qed

lemma upper_BLACK: "upper ''BLACK'' = ''BLACK''"
  by (simp add: upper_def upper_char_def)

lemma sources_scoped: "environ_get sources ''CLAUDE_COLAB_KEY_BLACK'' = JStr ''cc_scoped''"
  by (simp add: environ_get_def sources_def offline_def)

lemma sources_generic: "environ_get sources ''CLAUDE_COLAB_KEY'' = JStr ''cc_generic''"
  by (simp add: environ_get_def sources_def offline_def)

lemma sources_vend: "vend_key sources ''BLACK'' = JStr ''cc_vended''"
  by (simp add: vend_key_def sources_def offline_def dict_get_def upper_BLACK)

lemma fewer_sources:
  "environ_get (sources\<lparr>environ := [''CLAUDE_COLAB_KEY'' \<mapsto> ''cc_generic'']\<rparr>)
     ''CLAUDE_COLAB_KEY'' = JStr ''cc_generic''"
  "environ_get (sources\<lparr>environ := [''CLAUDE_COLAB_KEY'' \<mapsto> ''cc_generic'']\<rparr>)
     ''CLAUDE_COLAB_KEY_BLACK'' = JNull"
  "environ_get (sources\<lparr>environ := Map.empty\<rparr>) ''CLAUDE_COLAB_KEY'' = JNull"
  "environ_get (sources\<lparr>environ := Map.empty\<rparr>) ''CLAUDE_COLAB_KEY_BLACK'' = JNull"
  "vend_key (sources\<lparr>environ := Map.empty\<rparr>) ''BLACK'' = JStr ''cc_vended''"
  "environ_get offline ''CLAUDE_COLAB_KEY'' = JNull"
  "environ_get offline ''CLAUDE_COLAB_KEY_BLACK'' = JNull"
  "vend_key offline ''BLACK'' = JNull"
  by (simp_all add: environ_get_def vend_key_def sources_def offline_def dict_get_def upper_BLACK)

lemma resolve_key_order_examples:
  "resolve_key sources (JStr ''cc_held'') (Some ''cc_explicit'') (Some ''BLACK'') = JStr ''cc_explicit''
   \<and> resolve_key sources (JStr ''cc_held'') None (Some ''BLACK'') = JStr ''cc_scoped''
   \<and> resolve_key (sources\<lparr>environ := [''CLAUDE_COLAB_KEY'' \<mapsto> ''cc_generic'']\<rparr>)
        (JStr ''cc_held'') None (Some ''BLACK'') = JStr ''cc_generic''
   \<and> resolve_key (sources\<lparr>environ := Map.empty\<rparr>) (JStr ''cc_held'') None (Some ''BLACK'')
        = JStr ''cc_vended''
   \<and> fst (connect offline black_session None (Some ''BLACK'')) = Inr False
   \<and> resolve_key sources JNull None None = JStr ''cc_generic''
   \<and> fst (connect offline init None None) = Inr False
   \<and> resolve_key sources (JStr ''cc_held'') None None = JStr ''cc_held''"
  using resolve_key_order [of "''cc_explicit''" sources "JStr ''cc_held''" "Some ''BLACK''"
      None "''BLACK''" black_session]
    resolve_key_order [of "''cc_explicit''"
      "sources\<lparr>environ := [''CLAUDE_COLAB_KEY'' \<mapsto> ''cc_generic'']\<rparr>" "JStr ''cc_held''"
      "Some ''BLACK''" None "''BLACK''" black_session]
    resolve_key_order [of "''cc_explicit''" "sources\<lparr>environ := Map.empty\<rparr>"
      "JStr ''cc_held''" "Some ''BLACK''" None "''BLACK''" black_session]
    resolve_key_order [of "''cc_explicit''" offline "JNull" "Some ''BLACK''"
      None "''BLACK''" black_session]
    resolve_key_order [of "''cc_explicit''" sources "JNull" None None "''BLACK''" init]
    resolve_key_order [of "''cc_explicit''" sources "JStr ''cc_held''" None None
      "''BLACK''" init]
    resolve_key_order [of "''cc_explicit''" offline "JNull" None None "''BLACK''" init]
  by (simp add: fewer_sources upper_BLACK sources_scoped sources_generic sources_vend init_def)

text \<open>
  Claim C6. The documented order is: explicit key, variable scoped to the name, generic
  variable, keystore entry, first hit wins, and failure when none is there. The resolver
  works on \<open>self.api_key\<close> itself and resets it only in the lookup under a name. So a
  \<open>connect()\<close> without key and name on a session that holds a key from an earlier call
  never reaches the generic variable: with \<open>CLAUDE_COLAB_KEY\<close> set to \<open>cc_generic\<close> it
  resolves to the held \<open>cc_held\<close>, and a session that took \<open>cc_black\<close> while the backend
  was out of reach connects with it later although no explicit key, no variable and no
  keystore exists.
\<close>

theorem connect_keeps_held_key:
  "environ_get sources ''CLAUDE_COLAB_KEY'' = JStr ''cc_generic''
   \<and> resolve_key sources (JStr ''cc_held'') None None = JStr ''cc_held''
   \<and> connect offline init (Some ''cc_black'') None = (Inr False, init\<lparr>api_key := JStr ''cc_black''\<rparr>)
   \<and> environ backend ''CLAUDE_COLAB_KEY'' = None \<and> keystore backend = Missing
   \<and> connect backend (init\<lparr>api_key := JStr ''cc_black''\<rparr>) None None = (Inr True, black_session)"
  by (simp add: resolve_key_def environ_get_def sources_def offline_def backend_def init_def
      connect_def validate_key_def black_session_def black_row_def dict_get_def Let_def)

section \<open>Properties of sessions that are connected\<close>

text \<open>On a connected session \<open>_ensure_connected\<close> does nothing, so the operations that
  start with it leave the session as it is.\<close>

lemma ensure_connected_idle: "connected s \<Longrightarrow> ensure_connected w s = (Inr True, s)"
  by (simp add: ensure_connected_def)

lemma connect_True: "connect w s key name = (Inr True, s1) \<Longrightarrow> connected s1"
  by (auto simp: connect_def Let_def split: if_splits json.splits)

lemma ensure_connected_True: "ensure_connected w s = (Inr True, s1) \<Longrightarrow> connected s1"
  by (auto simp: ensure_connected_def connect_True split: if_splits)

lemma get_chat_connected:
  "connected s \<Longrightarrow> \<exists>chat. get_chat w s n = (Inr chat, s)"
  by (simp add: get_chat_def ensure_connected_idle)

lemma get_mentions_connected:
  "connected s \<Longrightarrow> snd (get_mentions w s n) = s"
  using get_chat_connected [of s w n]
  by (auto simp: get_mentions_def ensure_connected_idle)

lemma get_tasks_connected:
  "connected s \<Longrightarrow> \<exists>ts. get_tasks w s status = (Inr ts, s)"
  by (simp add: get_tasks_def ensure_connected_idle)

lemma my_tasks_connected:
  "connected s \<Longrightarrow> snd (my_tasks w s) = s"
  using get_tasks_connected [of s w "Some ''pending''"]
  by (auto simp: my_tasks_def split: sum.splits)

lemma get_my_instance_connected:
  "connected s \<Longrightarrow> \<exists>i. get_my_instance w s = (Inr i, s)"
  by (simp add: get_my_instance_def ensure_connected_idle)

lemma update_working_on_connected:
  "connected s \<Longrightarrow> snd (update_working_on w s wo) = s"
  using get_my_instance_connected [of s w]
  by (auto simp: update_working_on_def Let_def split: json.splits response.splits)

text \<open>The exceptions of the scans are \<open>TypeError\<close> and \<open>AttributeError\<close>, raised on
  messages and tasks that are not what the backend promises.\<close>

lemma connect_error: "connect w s key name = (Inl e, s1) \<Longrightarrow> e = AttributeError"
  by (auto simp: connect_def Let_def split: if_splits json.splits)

lemma ensure_connected_error: "ensure_connected w s = (Inl e, s1) \<Longrightarrow> e = AttributeError"
  by (auto simp: ensure_connected_def connect_error split: if_splits)

lemma py_in_error: "py_in x v = Inl e \<Longrightarrow> e = TypeError"
  by (cases v) auto

lemma is_mention_error: "is_mention tag m = Inl e \<Longrightarrow> e = TypeError \<or> e = AttributeError"
  by (auto simp: is_mention_def py_in_error split: json.splits)

lemma is_assigned_to_error: "is_assigned_to me t = Inl e \<Longrightarrow> e = TypeError \<or> e = AttributeError"
  by (auto simp: is_assigned_to_def split: json.splits)

lemma iter_or_empty_error: "iter_or_empty v = Inl e \<Longrightarrow> e = TypeError \<or> e = AttributeError"
  by (auto simp: iter_or_empty_def split: if_splits json.splits)

lemma filter_raising_error:
  assumes "\<And>m e. cond m = Inl e \<Longrightarrow> e = TypeError \<or> e = AttributeError"
  shows "filter_raising cond ms = Inl e \<Longrightarrow> e = TypeError \<or> e = AttributeError"
proof (induction ms arbitrary: e)
  case Nil
  then show ?case by simp
next
  case (Cons m ms)
  show ?case
  proof (cases "cond m")
    case (Inl e')
    with Cons.prems have "e = e'" by simp
    with Inl assms show ?thesis by blast
  next
    case (Inr b)
    with Cons.prems have "filter_raising cond ms = Inl e"
      by (simp split: sum.splits)
    then show ?thesis by (rule Cons.IH)
  qed
qed

lemma get_mentions_error:
  assumes c: "connected s" and g: "get_mentions w s n = (Inl e, s1)"
  shows "e = TypeError \<or> e = AttributeError"
proof -
  obtain chat where "get_chat w s n = (Inr chat, s)"
    using get_chat_connected [OF c] by blast
  with c g have "filter_raising (is_mention (''@'' @ py_str (claude_name s))) chat = Inl e"
    by (auto simp: get_mentions_def ensure_connected_idle)
  then show ?thesis
    using is_mention_error by (rule filter_raising_error [rotated])
qed

lemma my_tasks_error:
  assumes c: "connected s" and g: "my_tasks w s = (Inl e, s1)"
  shows "e = TypeError \<or> e = AttributeError"
proof -
  obtain ts where t: "get_tasks w s (Some ''pending'') = (Inr ts, s)"
    using get_tasks_connected [OF c] by blast
  show ?thesis
  proof (cases "iter_or_empty ts")
    case (Inl e')
    with t g have "e = e'" by (simp add: my_tasks_def)
    with Inl show ?thesis by (simp add: iter_or_empty_error)
  next
    case (Inr xs)
    with t g have "filter_raising (is_assigned_to (claude_name s)) xs = Inl e"
      by (auto simp: my_tasks_def)
    then show ?thesis
      using is_assigned_to_error by (rule filter_raising_error [rotated])
  qed
qed

subsection \<open>The example backend, evaluated\<close>

lemma ensure_connected_black: "ensure_connected backend black_session = (Inr True, black_session)"
  by (simp add: ensure_connected_def black_session_def)

lemma connected_black: "connected black_session"
  by (simp add: black_session_def)

lemma ensure_connected_offline: "ensure_connected offline init = (Inr False, init)"
  by (simp add: ensure_connected_def connect_def resolve_key_def environ_get_def offline_def
      init_def Let_def)

lemma get_chat_black: "get_chat backend black_session 20 = (Inr [msg1, msg2, msg3], black_session)"
  by (simp add: get_chat_def ensure_connected_black) (simp add: backend_def)

lemma is_mention_black:
  "is_mention ''@BLACK'' msg1 = Inr True"
  "is_mention ''@BLACK'' msg2 = Inr False"
  "is_mention ''@BLACK'' msg3 = Inr True"
  by (simp_all add: is_mention_def msg1_def msg2_def msg3_def dict_get_def)

lemma get_mentions_black:
  "get_mentions backend black_session 20 = (Inr [msg1, msg3], black_session)"
proof -
  have "py_str (claude_name black_session) = ''BLACK''"
    by (simp add: py_str_def black_session_def)
  then show ?thesis
    by (simp add: get_mentions_def ensure_connected_black get_chat_black is_mention_black)
qed

lemma my_tasks_black:
  "my_tasks backend black_session
     = (Inr [JDict [(''id'', JStr ''k1''), (''assigned_to'', JStr ''BLACK'')]], black_session)"
proof -
  have "get_tasks backend black_session (Some ''pending'')
      = (Inr (JList [JDict [(''id'', JStr ''k1''), (''assigned_to'', JStr ''BLACK'')],
                     JDict [(''id'', JStr ''k2''), (''assigned_to'', JStr ''OLLAMA'')]]),
         black_session)"
    by (simp add: get_tasks_def ensure_connected_black) (simp add: backend_def)
  then show ?thesis
    by (simp add: my_tasks_def iter_or_empty_def is_assigned_to_def dict_get_def)
      (simp add: black_session_def)
qed

lemma show_nat_digit:
  "show_nat 1 = ''1''" "show_nat 2 = ''2''"
  "show_nat (Suc 0) = ''1''" "show_nat (Suc (Suc 0)) = ''2''"
  by (simp_all add: show_nat.simps)

lemma connected_chat_down:
  "rpc_get_chat chat_down (api_key black_session) (project_slug black_session) 20
     = Http 500 BadJson"
  by (simp add: chat_down_def)

lemma get_mentions_broken:
  "get_mentions chat_broken black_session 20 = (Inl TypeError, black_session)"
proof -
  have "get_chat chat_broken black_session 20
      = (Inr [JDict [(''id'', JStr ''m9''), (''message'', JNull)]], black_session)"
    by (simp add: get_chat_def ensure_connected_idle connected_black)
      (simp add: chat_broken_def)
  then show ?thesis
    by (simp add: get_mentions_def ensure_connected_idle connected_black is_mention_def
        dict_get_def)
qed

lemma heartbeat_rpc_black:
  "rpc_heartbeat backend (api_key black_session) ''active'' (project_slug black_session)
     = Http 200 (Json (JBool True))"
  "rpc_heartbeat chat_broken (api_key black_session) ''active'' (project_slug black_session)
     = Http 200 (Json (JBool True))"
  by (simp_all add: backend_def chat_broken_def)

lemma project_slugs_black: "project_slugs [msg1, msg3] = Inr {JStr ''claude-colab''}"
  by (simp add: msg1_def msg3_def dict_get_def)

lemma hard_failure_gate:
  "hard_failure ''gate'' [''2 unread mentions'']
     = RuntimeError ''Hard checkpoint 'gate' failed: ['2 unread mentions']''"
  by (simp add: hard_failure_def py_repr_str_def escape_char_def Let_def)

lemma checkpoint_black_soft:
  "checkpoint backend black_session ''gate'' False True False
     = (Inr \<lparr>passed = False, mentions = 2, tasks = 0, blockers = [''2 unread mentions'']\<rparr>,
        black_session)"
  by (simp add: checkpoint_def ensure_connected_black mention_check_def get_mentions_black
      show_nat_digit)

lemma checkpoint_black_hard:
  "checkpoint backend black_session ''gate'' True True False
     = (Inl (RuntimeError ''Hard checkpoint 'gate' failed: ['2 unread mentions']''), black_session)"
  by (simp add: checkpoint_def ensure_connected_black mention_check_def get_mentions_black
      show_nat_digit hard_failure_gate)

lemma checkpoint_black_idle:
  "checkpoint backend black_session ''gate'' False False False
     = (Inr \<lparr>passed = True, mentions = 0, tasks = 0, blockers = []\<rparr>, black_session)"
  by (simp add: checkpoint_def ensure_connected_black)


section \<open>Properties of mentions\<close>

text \<open>
  Claim C1. \<open>has_new_mentions\<close> is documented to return the mentions newer than the message
  whose id is \<open>since_id\<close>. The backend delivers the chat newest first, \<open>get_chat\<close> reverses
  it, so \<open>get_mentions\<close> lists the mentions oldest first, and the loop collects from the
  front of that list until it meets \<open>since_id\<close>. On the example chat the mentions are
  \<open>m1\<close> (oldest) and \<open>m3\<close> (newest): asked for what is new since \<open>m3\<close> the function returns
  the older mention \<open>m1\<close>, not the empty list; asked since \<open>m1\<close> it returns nothing, though
  \<open>m3\<close> is newer. Without \<open>since_id\<close>, or with one that matches no mention, it returns all
  mentions.
\<close>

theorem has_new_mentions_returns_older:
  "rpc_get_chat backend (api_key black_session) (project_slug black_session) 20
     = Http 200 (Json (JList [msg3, msg2, msg1]))
   \<and> get_mentions backend black_session 20 = (Inr [msg1, msg3], black_session)
   \<and> has_new_mentions backend black_session (Some ''m3'') = (Inr [msg1], black_session)
   \<and> has_new_mentions backend black_session (Some ''m1'') = (Inr [], black_session)
   \<and> has_new_mentions backend black_session None = (Inr [msg1, msg3], black_session)
   \<and> has_new_mentions backend black_session (Some ''m0'') = (Inr [msg1, msg3], black_session)"
  by (simp add: has_new_mentions_def get_mentions_black)
    (simp add: backend_def msg1_def msg3_def dict_get_def)


section \<open>Properties of the checkpoint\<close>

text \<open>Whether the session gets connected does not depend on what the chat and task
  endpoints would answer.\<close>

lemma environ_get_world:
  "environ_get (w\<lparr>rpc_get_chat := g, rest_shared_tasks := t\<rparr>) n = environ_get w n"
  by (simp add: environ_get_def)

lemma vend_key_world:
  "vend_key (w\<lparr>rpc_get_chat := g, rest_shared_tasks := t\<rparr>) n = vend_key w n"
  by (simp add: vend_key_def)

lemma resolve_key_world:
  "resolve_key (w\<lparr>rpc_get_chat := g, rest_shared_tasks := t\<rparr>) held key name
     = resolve_key w held key name"
  unfolding resolve_key_def environ_get_world vend_key_world by (rule refl)

lemma validate_key_world:
  "validate_key (w\<lparr>rpc_get_chat := g, rest_shared_tasks := t\<rparr>) key = validate_key w key"
  unfolding validate_key_def by simp

lemma ensure_connected_world:
  "ensure_connected (w\<lparr>rpc_get_chat := g, rest_shared_tasks := t\<rparr>) s = ensure_connected w s"
  unfolding ensure_connected_def connect_def resolve_key_world validate_key_world by (rule refl)

text \<open>
  Claim C2. If the session is not connected and the automatic \<open>connect()\<close> fails, the
  result is \<open>passed = False\<close> with the blockers exactly \<open>["Not connected"]\<close>, whatever
  \<open>hard\<close> is, and neither check runs: the outcome is the same whatever the chat and task
  endpoints would answer. Otherwise the result has \<open>mentions = m\<close> for the \<open>m\<close> mentions
  found when \<open>check_mentions\<close> is set, \<open>tasks = k\<close> for the \<open>k\<close> pending tasks assigned to
  the current name when \<open>check_tasks\<close> is set, one blocker for \<open>m > 0\<close> and a further one
  for \<open>k > 0\<close> (both checks run, the blockers accumulate), and \<open>passed\<close> exactly when there
  is no blocker. That result is what the call returns, except that with \<open>hard\<close> a result
  that did not pass is raised as the exception built from its blockers. Two mentions with
  \<open>check_tasks = False\<close> give \<open>passed = False\<close>, one blocker, \<open>mentions = 2\<close>, \<open>tasks = 0\<close>.
\<close>

theorem checkpoint_gate:
  "(ensure_connected w s = (Inr False, s1) \<longrightarrow>
      checkpoint w s name hard check_mentions check_tasks
        = (Inr \<lparr>passed = False, mentions = 0, tasks = 0, blockers = [''Not connected'']\<rparr>, s1)
      \<and> checkpoint (w\<lparr>rpc_get_chat := g, rest_shared_tasks := t\<rparr>) s name hard
            check_mentions check_tasks
          = checkpoint w s name hard check_mentions check_tasks)
   \<and> (ensure_connected w s = (Inr True, s1)
        \<and> (check_mentions \<longrightarrow> fst (get_mentions w s1 20) = Inr ms)
        \<and> (check_tasks \<longrightarrow> fst (my_tasks w s1) = Inr ts) \<longrightarrow>
      (let m = (if check_mentions then length ms else 0);
           k = (if check_tasks then length ts else 0);
           result = \<lparr>passed = (m = 0 \<and> k = 0), mentions = m, tasks = k,
                     blockers = (if 0 < m then [show_nat m @ '' unread mentions''] else [])
                              @ (if 0 < k then [show_nat k @ '' pending tasks''] else [])\<rparr>
       in checkpoint w s name hard check_mentions check_tasks
            = (if hard \<and> \<not> passed result then Inl (hard_failure name (blockers result))
               else Inr result, s1)))"
proof (rule conjI; rule impI)
  assume a: "ensure_connected w s = (Inr False, s1)"
  then have "ensure_connected (w\<lparr>rpc_get_chat := g, rest_shared_tasks := t\<rparr>) s = (Inr False, s1)"
    by (simp add: ensure_connected_world)
  with a show "checkpoint w s name hard check_mentions check_tasks
        = (Inr \<lparr>passed = False, mentions = 0, tasks = 0, blockers = [''Not connected'']\<rparr>, s1)
      \<and> checkpoint (w\<lparr>rpc_get_chat := g, rest_shared_tasks := t\<rparr>) s name hard
            check_mentions check_tasks
          = checkpoint w s name hard check_mentions check_tasks"
    by (simp add: checkpoint_def)
next
  assume a: "ensure_connected w s = (Inr True, s1)
        \<and> (check_mentions \<longrightarrow> fst (get_mentions w s1 20) = Inr ms)
        \<and> (check_tasks \<longrightarrow> fst (my_tasks w s1) = Inr ts)"
  then have c: "connected s1" using ensure_connected_True by blast
  have gm: "check_mentions \<Longrightarrow> get_mentions w s1 20 = (Inr ms, s1)"
    using a get_mentions_connected [OF c, of w 20] by (cases "get_mentions w s1 20") simp
  have mt: "check_tasks \<Longrightarrow> my_tasks w s1 = (Inr ts, s1)"
    using a my_tasks_connected [OF c, of w] by (cases "my_tasks w s1") simp
  show "let m = (if check_mentions then length ms else 0);
           k = (if check_tasks then length ts else 0);
           result = \<lparr>passed = (m = 0 \<and> k = 0), mentions = m, tasks = k,
                     blockers = (if 0 < m then [show_nat m @ '' unread mentions''] else [])
                              @ (if 0 < k then [show_nat k @ '' pending tasks''] else [])\<rparr>
       in checkpoint w s name hard check_mentions check_tasks
            = (if hard \<and> \<not> passed result then Inl (hard_failure name (blockers result))
               else Inr result, s1)"
  proof (cases check_mentions; cases check_tasks)
    assume "check_mentions" "check_tasks"
    with a gm mt show ?thesis
      by (cases ms; cases ts) (simp_all add: checkpoint_def mention_check_def task_check_def Let_def)
  next
    assume "check_mentions" "\<not> check_tasks"
    with a gm show ?thesis
      by (cases ms) (simp_all add: checkpoint_def mention_check_def Let_def)
  next
    assume "\<not> check_mentions" "check_tasks"
    with a mt show ?thesis
      by (cases ts) (simp_all add: checkpoint_def task_check_def Let_def)
  next
    assume "\<not> check_mentions" "\<not> check_tasks"
    with a show ?thesis by (simp add: checkpoint_def Let_def)
  qed
qed

theorem checkpoint_gate_witness:
  "ensure_connected offline init = (Inr False, init)
   \<and> checkpoint offline init ''gate'' False True True
       = (Inr \<lparr>passed = False, mentions = 0, tasks = 0, blockers = [''Not connected'']\<rparr>, init)
   \<and> ensure_connected backend black_session = (Inr True, black_session)
   \<and> fst (get_mentions backend black_session 20) = Inr [msg1, msg3]
   \<and> checkpoint backend black_session ''gate'' False True False
       = (Inr \<lparr>passed = False, mentions = 2, tasks = 0, blockers = [''2 unread mentions'']\<rparr>,
          black_session)
   \<and> checkpoint backend black_session ''gate'' False True True
       = (Inr \<lparr>passed = False, mentions = 2, tasks = 1,
                blockers = [''2 unread mentions'', ''1 pending tasks'']\<rparr>,
          black_session)
   \<and> checkpoint backend black_session ''gate'' True False False
       = (Inr \<lparr>passed = True, mentions = 0, tasks = 0, blockers = []\<rparr>, black_session)"
  using checkpoint_gate [where w = offline and s = init and ?s1.0 = init and name = "''gate''"
      and hard = False and check_mentions = True and check_tasks = True
      and g = "rpc_get_chat offline" and t = "rest_shared_tasks offline"]
    checkpoint_gate [where w = backend and s = black_session and ?s1.0 = black_session
      and name = "''gate''" and hard = False and check_mentions = True and check_tasks = False
      and ms = "[msg1, msg3]"]
    checkpoint_gate [where w = backend and s = black_session and ?s1.0 = black_session
      and name = "''gate''" and hard = False and check_mentions = True and check_tasks = True
      and ms = "[msg1, msg3]"
      and ts = "[JDict [(''id'', JStr ''k1''), (''assigned_to'', JStr ''BLACK'')]]"]
    checkpoint_gate [where w = backend and s = black_session and ?s1.0 = black_session
      and name = "''gate''" and hard = True and check_mentions = False and check_tasks = False]
  by (simp add: ensure_connected_offline ensure_connected_black get_mentions_black my_tasks_black
      show_nat_digit Let_def)

text \<open>What \<open>checkpoint\<close> does on a session that \<open>_ensure_connected\<close> accepts: either a
  scan raises, whatever \<open>hard\<close> is, or the checks yield a result, which \<open>hard\<close> turns into
  the exception when it did not pass.\<close>

lemma checkpoint_connected_cases:
  assumes e: "ensure_connected w s = (Inr True, s1)"
  shows "(\<exists>e. (e = TypeError \<or> e = AttributeError)
            \<and> (\<forall>hard. checkpoint w s name hard cm ct = (Inl e, s1)))
       \<or> (\<exists>r. (passed r \<longleftrightarrow> blockers r = [])
            \<and> (\<forall>hard. checkpoint w s name hard cm ct
                  = (if \<not> passed r \<and> hard then Inl (hard_failure name (blockers r)) else Inr r,
                     s1)))"
proof -
  from e have c: "connected s1" by (rule ensure_connected_True)
  let ?r0 = "\<lparr>passed = True, mentions = 0, tasks = 0, blockers = []\<rparr>"
  define step1 where
    "step1 = (if cm then mention_check w s1 ?r0 else (Inr ?r0, s1))"
  have s1: "snd step1 = s1"
    using get_mentions_connected [OF c, of w 20]
    by (auto simp: step1_def mention_check_def split: prod.splits sum.splits)
  show ?thesis
  proof (cases "fst step1")
    case (Inl err)
    with s1 have st: "step1 = (Inl err, s1)" by (cases step1) simp
    then have "cm" and "get_mentions w s1 20 = (Inl err, s1)"
      by (auto simp: step1_def mention_check_def split: if_splits prod.splits sum.splits)
    then have "err = TypeError \<or> err = AttributeError"
      using get_mentions_error [OF c] by blast
    moreover have "checkpoint w s name hard cm ct = (Inl err, s1)" for hard
      using e st by (simp add: checkpoint_def step1_def)
    ultimately show ?thesis by blast
  next
    case (Inr r1)
    with s1 have st: "step1 = (Inr r1, s1)" by (cases step1) simp
    then have inv1: "passed r1 \<longleftrightarrow> blockers r1 = []"
      by (auto simp: step1_def mention_check_def split: if_splits prod.splits sum.splits)
    define step2 where "step2 = (if ct then task_check w s1 r1 else (Inr r1, s1))"
    have s2: "snd step2 = s1"
      using my_tasks_connected [OF c, of w]
      by (auto simp: step2_def task_check_def split: prod.splits sum.splits)
    show ?thesis
    proof (cases "fst step2")
      case (Inl err)
      with s2 have st2: "step2 = (Inl err, s1)" by (cases step2) simp
      then have "my_tasks w s1 = (Inl err, s1)"
        by (auto simp: step2_def task_check_def split: if_splits prod.splits sum.splits)
      then have "err = TypeError \<or> err = AttributeError"
        using my_tasks_error [OF c] by blast
      moreover have "checkpoint w s name hard cm ct = (Inl err, s1)" for hard
        using e st st2 by (simp add: checkpoint_def step1_def step2_def)
      ultimately show ?thesis by blast
    next
      case (Inr r2)
      with s2 have st2: "step2 = (Inr r2, s1)" by (cases step2) simp
      then have inv2: "passed r2 \<longleftrightarrow> blockers r2 = []"
        using inv1
        by (auto simp: step2_def task_check_def split: if_splits prod.splits sum.splits)
      moreover have "checkpoint w s name hard cm ct
          = (if \<not> passed r2 \<and> hard then Inl (hard_failure name (blockers r2)) else Inr r2, s1)"
        for hard
        using e st st2 by (simp add: checkpoint_def step1_def step2_def)
      ultimately show ?thesis by blast
    qed
  qed
qed

text \<open>
  Claim C3, as the code has it. With \<open>hard = False\<close> the call never raises the hard-wall
  exception. Whenever the call with \<open>hard = True\<close> raises it, the call with
  \<open>hard = False\<close> returns a result that did not pass, with a non-empty list of blockers,
  and the exception is a \<open>RuntimeError\<close> whose only argument is the message
  \<open>Hard checkpoint '<name>' failed: \<close> followed by the \<open>repr\<close> of that list: the list
  travels as text inside the message. On a session that is connected (or gets connected),
  a result of the soft call that did not pass is raised by the hard call, and a result
  that passed is returned by both.
\<close>

theorem checkpoint_hard:
  "(\<forall>x. fst (checkpoint w s name False cm ct) \<noteq> Inl (RuntimeError x))
   \<and> (checkpoint w s name True cm ct = (Inl (RuntimeError x), s') \<longrightarrow>
        (\<exists>r. checkpoint w s name False cm ct = (Inr r, s') \<and> \<not> passed r \<and> blockers r \<noteq> []
             \<and> RuntimeError x = hard_failure name (blockers r)))
   \<and> (ensure_connected w s = (Inr True, s1) \<and> checkpoint w s name False cm ct = (Inr r, s') \<longrightarrow>
        checkpoint w s name True cm ct
          = (if passed r then Inr r else Inl (hard_failure name (blockers r)), s'))
   \<and> (checkpoint w s name False cm ct = (Inr r, s') \<and> passed r \<longrightarrow>
        checkpoint w s name True cm ct = (Inr r, s'))"
proof -
  obtain out s0 where ec: "ensure_connected w s = (out, s0)"
    by (cases "ensure_connected w s")
  show ?thesis
  proof (cases out)
    case (Inl e)
    with ec have "e = AttributeError" by (simp add: ensure_connected_error)
    with ec Inl show ?thesis by (simp add: checkpoint_def)
  next
    case (Inr c)
    show ?thesis
    proof (cases c)
      case False
      with ec Inr show ?thesis by (auto simp: checkpoint_def)
    next
      case True
      with ec Inr have e: "ensure_connected w s = (Inr True, s0)" by simp
      from checkpoint_connected_cases [OF e, of name cm ct]
      consider (raises) err where "err = TypeError \<or> err = AttributeError"
          and "\<forall>hard. checkpoint w s name hard cm ct = (Inl err, s0)"
        | (result) r0 where "passed r0 \<longleftrightarrow> blockers r0 = []"
          and "\<forall>hard. checkpoint w s name hard cm ct
                  = (if \<not> passed r0 \<and> hard then Inl (hard_failure name (blockers r0))
                     else Inr r0, s0)"
        by blast
      then show ?thesis
      proof cases
        case raises
        then show ?thesis by auto
      next
        case result
        then show ?thesis by (auto simp: hard_failure_def)
      qed
    qed
  qed
qed

theorem checkpoint_hard_witness:
  "checkpoint backend black_session ''gate'' True True False
     = (Inl (RuntimeError ''Hard checkpoint 'gate' failed: ['2 unread mentions']''), black_session)
   \<and> ensure_connected backend black_session = (Inr True, black_session)
   \<and> checkpoint backend black_session ''gate'' False True False
       = (Inr \<lparr>passed = False, mentions = 2, tasks = 0, blockers = [''2 unread mentions'']\<rparr>,
          black_session)
   \<and> RuntimeError ''Hard checkpoint 'gate' failed: ['2 unread mentions']''
       = hard_failure ''gate'' [''2 unread mentions'']
   \<and> checkpoint backend black_session ''gate'' False False False
       = (Inr \<lparr>passed = True, mentions = 0, tasks = 0, blockers = []\<rparr>, black_session)
   \<and> checkpoint backend black_session ''gate'' True False False
       = (Inr \<lparr>passed = True, mentions = 0, tasks = 0, blockers = []\<rparr>, black_session)"
  using checkpoint_hard [where w = backend and s = black_session and name = "''gate''"
      and cm = True and ct = False and ?s1.0 = black_session and s' = black_session
      and x = "''Hard checkpoint 'gate' failed: ['2 unread mentions']''"
      and r = "\<lparr>passed = False, mentions = 2, tasks = 0, blockers = [''2 unread mentions'']\<rparr>"]
    checkpoint_hard [where w = backend and s = black_session and name = "''gate''"
      and cm = False and ct = False and ?s1.0 = black_session and s' = black_session
      and r = "\<lparr>passed = True, mentions = 0, tasks = 0, blockers = []\<rparr>"]
  by (simp add: checkpoint_black_soft checkpoint_black_hard checkpoint_black_idle
      ensure_connected_black hard_failure_gate)

text \<open>A hard checkpoint on a session that cannot connect returns the result with the
  blocker \<open>Not connected\<close> instead of raising; and where it raises, what the exception
  carries is the message.\<close>

theorem checkpoint_hard_counterexample:
  "checkpoint offline init ''gate'' True True True
     = (Inr \<lparr>passed = False, mentions = 0, tasks = 0, blockers = [''Not connected'']\<rparr>, init)
   \<and> checkpoint backend black_session ''gate'' True True False
       = (Inl (RuntimeError ''Hard checkpoint 'gate' failed: ['2 unread mentions']''),
          black_session)"
  by (simp add: checkpoint_black_hard) (simp add: checkpoint_def ensure_connected_offline)

subsection \<open>A chat that cannot be fetched\<close>

lemma get_chat_failure:
  assumes "connected s"
    and "rpc_get_chat w (api_key s) (project_slug s) n = TransportError
         \<or> (\<exists>st b. rpc_get_chat w (api_key s) (project_slug s) n = Http st b \<and> st \<noteq> 200)"
  shows "get_chat w s n = (Inr [], s)"
  using assms by (auto simp: get_chat_def ensure_connected_idle)

lemma get_mentions_failure:
  assumes "connected s"
    and "rpc_get_chat w (api_key s) (project_slug s) n = TransportError
         \<or> (\<exists>st b. rpc_get_chat w (api_key s) (project_slug s) n = Http st b \<and> st \<noteq> 200)"
  shows "get_mentions w s n = (Inr [], s)"
  using assms get_chat_failure [OF assms]
  by (simp add: get_mentions_def ensure_connected_idle)

lemma my_tasks_chat_down:
  "my_tasks chat_down black_session
     = (Inr [JDict [(''id'', JStr ''k1''), (''assigned_to'', JStr ''BLACK'')]], black_session)"
proof -
  have "get_tasks chat_down black_session (Some ''pending'')
      = (Inr (JList [JDict [(''id'', JStr ''k1''), (''assigned_to'', JStr ''BLACK'')],
                     JDict [(''id'', JStr ''k2''), (''assigned_to'', JStr ''OLLAMA'')]]),
         black_session)"
    by (simp add: get_tasks_def ensure_connected_idle connected_black)
      (simp add: chat_down_def backend_def)
  then show ?thesis
    by (simp add: my_tasks_def iter_or_empty_def is_assigned_to_def dict_get_def)
      (simp add: black_session_def)
qed

lemma hard_failure_tasks:
  "hard_failure ''gate'' [''1 pending tasks'']
     = RuntimeError ''Hard checkpoint 'gate' failed: ['1 pending tasks']''"
  by (simp add: hard_failure_def py_repr_str_def escape_char_def Let_def)

text \<open>
  Claim C10, as the code has it. On a connected session, when the chat request fails in
  transport or comes back with a status other than 200, \<open>get_chat\<close> and \<open>get_mentions\<close>
  return the empty list. A checkpoint with \<open>check_mentions\<close> then reports no mention and no
  blocker for mentions: it behaves as with \<open>check_mentions = False\<close>. With the task check
  off it passes, also when \<open>hard\<close> is set; with the task check on, the outcome is that of
  the task check alone: it passes exactly when no pending task is assigned to the current
  name, and otherwise has the one blocker for the tasks.
\<close>

theorem checkpoint_chat_failure:
  "connected s
   \<and> (rpc_get_chat w (api_key s) (project_slug s) 20 = TransportError
      \<or> (\<exists>st b. rpc_get_chat w (api_key s) (project_slug s) 20 = Http st b \<and> st \<noteq> 200))
   \<longrightarrow> get_chat w s 20 = (Inr [], s)
     \<and> get_mentions w s 20 = (Inr [], s)
     \<and> checkpoint w s name hard True False
         = (Inr \<lparr>passed = True, mentions = 0, tasks = 0, blockers = []\<rparr>, s)
     \<and> checkpoint w s name hard True check_tasks = checkpoint w s name hard False check_tasks
     \<and> (fst (my_tasks w s) = Inr ts \<longrightarrow>
          (let k = length ts;
               result = \<lparr>passed = (k = 0), mentions = 0, tasks = k,
                         blockers = (if 0 < k then [show_nat k @ '' pending tasks''] else [])\<rparr>
           in checkpoint w s name hard True True
                = (if hard \<and> \<not> passed result then Inl (hard_failure name (blockers result))
                   else Inr result, s)))"
proof (rule impI)
  assume a: "connected s
   \<and> (rpc_get_chat w (api_key s) (project_slug s) 20 = TransportError
      \<or> (\<exists>st b. rpc_get_chat w (api_key s) (project_slug s) 20 = Http st b \<and> st \<noteq> 200))"
  then have c: "connected s" and g: "get_chat w s 20 = (Inr [], s)"
    and m: "get_mentions w s 20 = (Inr [], s)"
    by (simp_all add: get_chat_failure get_mentions_failure)
  have mc: "mention_check w s r = (Inr r, s)" for r
    using m by (simp add: mention_check_def)
  have basic: "checkpoint w s name hard True False
         = (Inr \<lparr>passed = True, mentions = 0, tasks = 0, blockers = []\<rparr>, s)
     \<and> checkpoint w s name hard True check_tasks = checkpoint w s name hard False check_tasks"
    using c by (simp add: checkpoint_def ensure_connected_idle mc)
  have tasks: "let k = length ts;
               result = \<lparr>passed = (k = 0), mentions = 0, tasks = k,
                         blockers = (if 0 < k then [show_nat k @ '' pending tasks''] else [])\<rparr>
           in checkpoint w s name hard True True
                = (if hard \<and> \<not> passed result then Inl (hard_failure name (blockers result))
                   else Inr result, s)"
    if t: "fst (my_tasks w s) = Inr ts"
  proof -
    have "my_tasks w s = (Inr ts, s)"
      using t my_tasks_connected [OF c, of w] by (cases "my_tasks w s") simp
    with c show ?thesis
      by (cases ts) (simp_all add: checkpoint_def ensure_connected_idle mc task_check_def Let_def)
  qed
  from g m basic tasks show "get_chat w s 20 = (Inr [], s)
     \<and> get_mentions w s 20 = (Inr [], s)
     \<and> checkpoint w s name hard True False
         = (Inr \<lparr>passed = True, mentions = 0, tasks = 0, blockers = []\<rparr>, s)
     \<and> checkpoint w s name hard True check_tasks = checkpoint w s name hard False check_tasks
     \<and> (fst (my_tasks w s) = Inr ts \<longrightarrow>
          (let k = length ts;
               result = \<lparr>passed = (k = 0), mentions = 0, tasks = k,
                         blockers = (if 0 < k then [show_nat k @ '' pending tasks''] else [])\<rparr>
           in checkpoint w s name hard True True
                = (if hard \<and> \<not> passed result then Inl (hard_failure name (blockers result))
                   else Inr result, s)))"
    by blast
qed

lemma chat_offline:
  "rpc_get_chat offline (api_key black_session) (project_slug black_session) 20 = TransportError"
  by (simp add: offline_def)

theorem checkpoint_chat_failure_witness:
  "connected black_session
   \<and> rpc_get_chat chat_down (api_key black_session) (project_slug black_session) 20
       = Http 500 BadJson
   \<and> get_mentions chat_down black_session 20 = (Inr [], black_session)
   \<and> checkpoint chat_down black_session ''gate'' True True False
       = (Inr \<lparr>passed = True, mentions = 0, tasks = 0, blockers = []\<rparr>, black_session)
   \<and> fst (my_tasks chat_down black_session)
       = Inr [JDict [(''id'', JStr ''k1''), (''assigned_to'', JStr ''BLACK'')]]
   \<and> checkpoint chat_down black_session ''gate'' False True True
       = (Inr \<lparr>passed = False, mentions = 0, tasks = 1, blockers = [''1 pending tasks'']\<rparr>,
          black_session)
   \<and> rpc_get_chat offline (api_key black_session) (project_slug black_session) 20
       = TransportError
   \<and> checkpoint offline black_session ''gate'' True True False
       = (Inr \<lparr>passed = True, mentions = 0, tasks = 0, blockers = []\<rparr>, black_session)"
proof -
  note down = checkpoint_chat_failure [where s = black_session and w = chat_down
      and name = "''gate''" and hard = False and check_tasks = True
      and ts = "[JDict [(''id'', JStr ''k1''), (''assigned_to'', JStr ''BLACK'')]]"]
  note down_hard = checkpoint_chat_failure [where s = black_session and w = chat_down
      and name = "''gate''" and hard = True and check_tasks = False
      and ts = "[JDict [(''id'', JStr ''k1''), (''assigned_to'', JStr ''BLACK'')]]"]
  note off = checkpoint_chat_failure [where s = black_session and w = offline
      and name = "''gate''" and hard = True and check_tasks = False and ts = "[]"]
  have 1: "get_mentions chat_down black_session 20 = (Inr [], black_session)"
    and 2: "checkpoint chat_down black_session ''gate'' False True True
       = (Inr \<lparr>passed = False, mentions = 0, tasks = 1, blockers = [''1 pending tasks'']\<rparr>,
          black_session)"
    using down
    by (auto simp: connected_black connected_chat_down my_tasks_chat_down show_nat_digit Let_def)
  have 3: "checkpoint chat_down black_session ''gate'' True True False
       = (Inr \<lparr>passed = True, mentions = 0, tasks = 0, blockers = []\<rparr>, black_session)"
    using down_hard by (auto simp: connected_black connected_chat_down)
  have 4: "checkpoint offline black_session ''gate'' True True False
       = (Inr \<lparr>passed = True, mentions = 0, tasks = 0, blockers = []\<rparr>, black_session)"
    using off by (auto simp: connected_black chat_offline)
  from 1 2 3 4 show ?thesis
    by (simp add: connected_black connected_chat_down my_tasks_chat_down chat_offline)
qed

text \<open>With the chat answering 500 and the task check on, the pending task assigned to
  \<open>BLACK\<close> blocks the gate, and the hard wall raises.\<close>

theorem checkpoint_chat_failure_counterexample:
  "connected black_session
   \<and> rpc_get_chat chat_down (api_key black_session) (project_slug black_session) 20
       = Http 500 BadJson
   \<and> checkpoint chat_down black_session ''gate'' False True True
       = (Inr \<lparr>passed = False, mentions = 0, tasks = 1, blockers = [''1 pending tasks'']\<rparr>,
          black_session)
   \<and> checkpoint chat_down black_session ''gate'' True True True
       = (Inl (RuntimeError ''Hard checkpoint 'gate' failed: ['1 pending tasks']''), black_session)"
proof -
  have m: "get_mentions chat_down black_session 20 = (Inr [], black_session)"
    using connected_black connected_chat_down by (simp add: get_mentions_failure)
  show ?thesis
    using connected_black connected_chat_down
    by (simp add: checkpoint_def ensure_connected_idle mention_check_def m task_check_def
        my_tasks_chat_down show_nat_digit hard_failure_tasks)
qed


section \<open>Properties of the heartbeat\<close>

text \<open>
  Claim C9. On a connected session, when the presence call is answered with status 200
  and the body \<open>true\<close>, a heartbeat with \<open>check_mentions\<close> returns \<open>ok = True\<close> whatever the
  mention scan does. If the scan raises, the count stays 0 and the projects stay empty; if
  it succeeds, the count is the number of mentions and the projects are the distinct
  truthy \<open>project_slug\<close> values of the mentions (left empty when one of them cannot be
  hashed).
\<close>

theorem heartbeat_ok_independent:
  "connected s
   \<and> rpc_heartbeat w (api_key s) status (project_slug s) = Http 200 (Json (JBool True))
   \<longrightarrow> (\<exists>r. heartbeat w s status working_on True = (Inr r, s)
          \<and> ok r
          \<and> (case fst (get_mentions w s 20) of
                Inl e \<Rightarrow> hb_mentions r = 0 \<and> mention_projects r = {}
              | Inr ms \<Rightarrow>
                  hb_mentions r = length ms
                  \<and> (case project_slugs ms of
                        Inl e \<Rightarrow> mention_projects r = {}
                      | Inr ps \<Rightarrow> mention_projects r = ps)))"
proof (rule impI)
  assume a: "connected s
   \<and> rpc_heartbeat w (api_key s) status (project_slug s) = Http 200 (Json (JBool True))"
  then have c: "connected s" and p: "emit_presence w s status"
    by (simp_all add: emit_presence_def)
  note u = update_working_on_connected [OF c, of w]
  obtain out where g: "get_mentions w s 20 = (out, s)"
    using get_mentions_connected [OF c, of w 20] by (cases "get_mentions w s 20") simp
  have h: "heartbeat w s status working_on True =
      (case out of
         Inl e \<Rightarrow> (Inr \<lparr>ok = True, hb_mentions = 0, mention_projects = {}\<rparr>, s)
       | Inr ms \<Rightarrow>
           if ms \<noteq> [] then
             (case project_slugs ms of
                Inl e \<Rightarrow> (Inr \<lparr>ok = True, hb_mentions = length ms, mention_projects = {}\<rparr>, s)
              | Inr ps \<Rightarrow> (Inr \<lparr>ok = True, hb_mentions = length ms, mention_projects = ps\<rparr>, s))
           else (Inr \<lparr>ok = True, hb_mentions = 0, mention_projects = {}\<rparr>, s))"
    using c p g
    by (cases working_on; cases out)
      (simp_all add: heartbeat_def ensure_connected_idle u Let_def split: sum.splits)
  show "\<exists>r. heartbeat w s status working_on True = (Inr r, s)
          \<and> ok r
          \<and> (case fst (get_mentions w s 20) of
                Inl e \<Rightarrow> hb_mentions r = 0 \<and> mention_projects r = {}
              | Inr ms \<Rightarrow>
                  hb_mentions r = length ms
                  \<and> (case project_slugs ms of
                        Inl e \<Rightarrow> mention_projects r = {}
                      | Inr ps \<Rightarrow> mention_projects r = ps))"
  proof (cases out)
    case (Inl e)
    with h g show ?thesis by simp
  next
    case (Inr ms)
    show ?thesis
    proof (cases "ms = []")
      case True
      with Inr h g show ?thesis by simp
    next
      case False
      with Inr h g show ?thesis by (cases "project_slugs ms") simp_all
    qed
  qed
qed

theorem heartbeat_ok_independent_witness:
  "connected black_session
   \<and> rpc_heartbeat chat_broken (api_key black_session) ''active'' (project_slug black_session)
       = Http 200 (Json (JBool True))
   \<and> fst (get_mentions chat_broken black_session 20) = Inl TypeError
   \<and> heartbeat chat_broken black_session ''active'' None True
       = (Inr \<lparr>ok = True, hb_mentions = 0, mention_projects = {}\<rparr>, black_session)
   \<and> fst (get_mentions backend black_session 20) = Inr [msg1, msg3]
   \<and> heartbeat backend black_session ''active'' None True
       = (Inr \<lparr>ok = True, hb_mentions = 2, mention_projects = {JStr ''claude-colab''}\<rparr>,
          black_session)"
proof -
  from heartbeat_ok_independent [of black_session chat_broken "''active''" None]
  obtain r where "heartbeat chat_broken black_session ''active'' None True = (Inr r, black_session)"
    and "ok r" and "hb_mentions r = 0" and "mention_projects r = {}"
    by (auto simp: connected_black heartbeat_rpc_black get_mentions_broken)
  then have 1: "heartbeat chat_broken black_session ''active'' None True
       = (Inr \<lparr>ok = True, hb_mentions = 0, mention_projects = {}\<rparr>, black_session)"
    by (cases r) simp
  from heartbeat_ok_independent [of black_session backend "''active''" None]
  obtain r where "heartbeat backend black_session ''active'' None True = (Inr r, black_session)"
    and "ok r" and "hb_mentions r = 2" and "mention_projects r = {JStr ''claude-colab''}"
    by (auto simp: connected_black heartbeat_rpc_black get_mentions_black project_slugs_black
        simp del: project_slugs.simps)
  then have 2: "heartbeat backend black_session ''active'' None True
       = (Inr \<lparr>ok = True, hb_mentions = 2, mention_projects = {JStr ''claude-colab''}\<rparr>,
          black_session)"
    by (cases r) simp
  from 1 2 show ?thesis
    by (simp add: connected_black heartbeat_rpc_black get_mentions_broken get_mentions_black)
qed

end
